theory Spec2Isabelle
  imports Complex_Main
begin

section \<open>Data model of the dashboard client\<close>

text \<open>
  The repository holds two generations of the dashboard client: the gallery dashboard
  (``Dashboard v2'', the file with the form, the gallery and the detail cache) and the
  earlier WebSocket dashboard (\<^verbatim>\<open>src/bot/web/static/app.js\<close>). Both are embedded;
  names of the earlier one carry the suffix \<open>1\<close> where they would clash.

  JavaScript values are typed as the push envelope and the REST contract give them. A
  property that may be \<^verbatim>\<open>undefined\<close> (or \<^verbatim>\<open>null\<close>) is an \<open>option\<close>, \<open>None\<close>
  standing for the missing value. Strings are byte lists; the Swedish literals of the
  source are written with their UTF-8 bytes. Objects used as dictionaries are maps on
  their own properties (job ids are taken not to be names of \<^verbatim>\<open>Object.prototype\<close>).
\<close>

datatype error = TypeError

record summary =
  job_id :: string
  prompt :: string
  stage :: "string option"
  created_at :: string
  completed_at :: "string option"
  image_count :: nat
  winner :: "string option"
  winner_path :: "string option"

text \<open>The detail document of \<^verbatim>\<open>GET /api/jobs/{job_id}\<close>; the client only stores and renders it.\<close>

record detail =
  dt_job_id :: string
  dt_stage :: "string option"
  dt_summary :: "string option"

record log_entry =
  agent :: "string option"
  message :: "string option"
  time :: string

text \<open>
  The \<^verbatim>\<open>data\<close> object of an event. \<^verbatim>\<open>data.scores\<close> is an object of numbers, keyed by
  dimension.
\<close>

record edata =
  d_prompt :: "string option"
  d_stage :: "string option"
  d_agent :: "string option"
  d_message :: "string option"
  d_variant :: "string option"
  d_error :: "string option"
  d_file_path :: "string option"
  d_index :: "int option"
  d_scores :: "(string \<rightharpoonup> real) option"
  d_rank :: "int option"
  d_review :: "string option"

text \<open>The envelope \<^verbatim>\<open>{type, job_id, data, timestamp}\<close>; \<open>ev_data = None\<close> is an envelope without \<^verbatim>\<open>data\<close>.\<close>

record event =
  ev_type :: string
  ev_job_id :: string
  ev_data :: "edata option"
  ev_timestamp :: string

text \<open>What the client sends to the network, and the callbacks it hands to \<^verbatim>\<open>setTimeout\<close>.\<close>

datatype request = GetDetail string | GetJobs "string option" "string option"

datatype callback = LoadJobs | Connect

text \<open>One rendered pipeline stage: its key, the class of its icon, the class of its label.\<close>

record stage_view =
  sv_key :: string
  sv_icon :: string
  sv_label :: string

text \<open>
  The state of the gallery dashboard: its module variables, the parts of the page it
  reads and writes, and its pending effects. \<open>gallery\<close> lists the job ids of the cards
  in \<^verbatim>\<open>#job-gallery\<close>, so \<^verbatim>\<open>document.getElementById("detail-" + id)\<close> finds an element
  exactly for those; the markup inside a card is not modelled. \<open>requests\<close> is every
  \<^verbatim>\<open>fetch\<close> issued so far, a request being known by its position; \<open>inflight\<close> are the
  positions whose continuation has not run. \<open>timers\<close> are the pending \<^verbatim>\<open>setTimeout\<close>
  calls as (id, due time in ms, callback). \<open>ws\<close> is the socket the variable \<^verbatim>\<open>ws\<close>
  holds, \<open>close_calls\<close> the sockets \<^verbatim>\<open>close()\<close> was called on.
\<close>

record state =
  currentJobId :: "string option"
  expandedJobId :: "string option"
  jobList :: "summary list"
  jobDetailCache :: "string \<rightharpoonup> detail"
  agentLog :: "log_entry list"
  searchDebounce :: "nat option"
  statusDot :: string
  statusText :: string
  stages_html :: "stage_view list"
  agentLog_html :: "log_entry list"
  cards_shown :: bool
  gallery :: "string list"
  searchInput :: string
  sortSelect :: string
  requests :: "request list"
  inflight :: "nat list"
  timers :: "(nat \<times> nat \<times> callback) list"
  next_timer :: nat
  ws :: "nat option"
  next_socket :: nat
  close_calls :: "nat list"
  console :: "string list"

section \<open>JavaScript helpers\<close>

text \<open>\<^verbatim>\<open>a || b\<close> on a string that may be missing: the missing value and the empty string are falsy.\<close>

fun or_else :: "string option \<Rightarrow> string \<Rightarrow> string" where
  "or_else None d = d"
| "or_else (Some v) d = (if v = [] then d else v)"

text \<open>\<^verbatim>\<open>Array.prototype.findIndex\<close>: the first index whose element passes, or \<open>-1\<close>.\<close>

fun findIndex :: "('a \<Rightarrow> bool) \<Rightarrow> 'a list \<Rightarrow> int" where
  "findIndex P [] = -1"
| "findIndex P (x # xs) =
     (if P x then 0 else (let r = findIndex P xs in if r < 0 then -1 else r + 1))"

text \<open>
  \<^verbatim>\<open>String.prototype.trim\<close> strips the white space and the line terminators of
  ECMAScript at both ends: TAB, LF, VT, FF, CR, SP, U+00A0, U+1680, U+2000 to U+200A,
  U+2028, U+2029, U+202F, U+205F, U+3000 and U+FEFF, each here as the bytes of its UTF-8
  encoding.
\<close>

definition white_space :: "string list" where
  "white_space =
     [[CHR 0x09], [CHR 0x0A], [CHR 0x0B], [CHR 0x0C], [CHR 0x0D], [CHR 0x20],
      [CHR 0xC2, CHR 0xA0], [CHR 0xE1, CHR 0x9A, CHR 0x80],
      [CHR 0xE2, CHR 0x80, CHR 0x80], [CHR 0xE2, CHR 0x80, CHR 0x81],
      [CHR 0xE2, CHR 0x80, CHR 0x82], [CHR 0xE2, CHR 0x80, CHR 0x83],
      [CHR 0xE2, CHR 0x80, CHR 0x84], [CHR 0xE2, CHR 0x80, CHR 0x85],
      [CHR 0xE2, CHR 0x80, CHR 0x86], [CHR 0xE2, CHR 0x80, CHR 0x87],
      [CHR 0xE2, CHR 0x80, CHR 0x88], [CHR 0xE2, CHR 0x80, CHR 0x89],
      [CHR 0xE2, CHR 0x80, CHR 0x8A], [CHR 0xE2, CHR 0x80, CHR 0xA8],
      [CHR 0xE2, CHR 0x80, CHR 0xA9], [CHR 0xE2, CHR 0x80, CHR 0xAF],
      [CHR 0xE2, CHR 0x81, CHR 0x9F], [CHR 0xE3, CHR 0x80, CHR 0x80],
      [CHR 0xEF, CHR 0xBB, CHR 0xBF]]"

definition starts_with :: "string \<Rightarrow> string \<Rightarrow> bool" where
  "starts_with v w = (w \<noteq> [] \<and> take (length w) v = w)"

lemma starts_with_shorter:
  assumes "starts_with v w"
  shows "length v - length w < length v"
proof -
  from assms have "length (take (length w) v) = length w"
    by (simp add: starts_with_def)
  then have 1: "length w \<le> length v" by simp
  from assms have 2: "0 < length w" by (simp add: starts_with_def)
  from 1 2 show ?thesis by linarith
qed

text \<open>Strip, from the start of \<open>v\<close>, every leading occurrence of one of the sequences \<open>seqs\<close>.\<close>

function strip_start :: "string list \<Rightarrow> string \<Rightarrow> string" where
  "strip_start seqs v =
     (case find (starts_with v) seqs of
        None \<Rightarrow> v
      | Some w \<Rightarrow> strip_start seqs (drop (length w) v))"
  by pat_completeness auto
termination
  by (relation "measure (\<lambda>p. length (snd p))")
     (auto simp: find_Some_iff starts_with_shorter)

declare strip_start.simps [simp del]

definition trim :: "string \<Rightarrow> string" where
  "trim v = rev (strip_start (map rev white_space) (rev (strip_start white_space v)))"



section \<open>The gallery dashboard\<close>

subsection \<open>Pipeline and log view\<close>

definition STAGES :: "string list" where
  "STAGES = [''research'', ''prompt_crafting'', ''generating'', ''evaluating'']"

text \<open>The body of the \<^verbatim>\<open>STAGES.map((s, i) => ...)\<close> callback of \<^verbatim>\<open>renderPipeline\<close>.\<close>

definition stage_cell :: "string option \<Rightarrow> int \<Rightarrow> nat \<times> string \<Rightarrow> stage_view" where
  "stage_cell currentStage stageIndex p =
     (let i = int (fst p);
          isFailed = (currentStage = Some ''failed'');
          isComplete = (currentStage = Some ''complete'');
          iconClass =
            (if isFailed \<and> i = stageIndex then ''failed''
             else if isComplete \<or> i < stageIndex then ''done''
             else if i = stageIndex then ''active''
             else ''pending'');
          labelClass = (if i = stageIndex \<and> \<not> isComplete then ''active'' else '''')
      in \<lparr>sv_key = snd p, sv_icon = iconClass, sv_label = labelClass\<rparr>)"

definition pipeline_view :: "string option \<Rightarrow> stage_view list" where
  "pipeline_view currentStage =
     (let stageIndex = findIndex (\<lambda>k. Some k = currentStage) STAGES
      in map (stage_cell currentStage stageIndex) (enumerate 0 STAGES))"

definition renderPipeline :: "string option \<Rightarrow> state \<Rightarrow> state" where
  "renderPipeline currentStage s = s\<lparr>stages_html := pipeline_view currentStage\<rparr>"

definition showPipelineCards :: "state \<Rightarrow> state" where
  "showPipelineCards s = s\<lparr>cards_shown := True\<rparr>"

text \<open>\<^verbatim>\<open>agentLog.slice(-30)\<close>: the last thirty entries.\<close>

definition renderAgentLog :: "state \<Rightarrow> state" where
  "renderAgentLog s = s\<lparr>agentLog_html := drop (length (agentLog s) - 30) (agentLog s)\<rparr>"

subsection \<open>Detail cache and gallery\<close>

text \<open>
  \<^verbatim>\<open>fetchAndRenderDetail\<close> up to its first \<^verbatim>\<open>await\<close>: without a container it returns;
  a cached entry is rendered unless a refresh is forced; otherwise the request goes out
  and the rest of the function waits for the response.
\<close>

definition issue :: "request \<Rightarrow> state \<Rightarrow> state" where
  "issue r s = s\<lparr>requests := requests s @ [r], inflight := inflight s @ [length (requests s)]\<rparr>"

definition fetchAndRenderDetail :: "string \<Rightarrow> bool \<Rightarrow> state \<Rightarrow> state" where
  "fetchAndRenderDetail jobId forceRefresh s =
     (if jobId \<notin> set (gallery s) then s
      else if \<not> forceRefresh \<and> jobDetailCache s jobId \<noteq> None then s
      else issue (GetDetail jobId) s)"

text \<open>
  The rest of \<^verbatim>\<open>fetchAndRenderDetail\<close>, run when the response of request \<open>i\<close> arrives:
  \<open>Some d\<close> is a response with \<^verbatim>\<open>res.ok\<close> and a body that parses, \<open>None\<close> any failure
  (caught; only the card shows it).
\<close>

definition detail_response :: "nat \<Rightarrow> detail option \<Rightarrow> state \<Rightarrow> state" where
  "detail_response i resp s =
     (if i \<in> set (inflight s) \<and> i < length (requests s) then
        (case requests s ! i of
           GetDetail jobId \<Rightarrow>
             (let s1 = s\<lparr>inflight := removeAll i (inflight s)\<rparr>
              in case resp of
                   Some d \<Rightarrow> s1\<lparr>jobDetailCache := (jobDetailCache s1)(jobId \<mapsto> d)\<rparr>
                 | None \<Rightarrow> s1)
         | GetJobs _ _ \<Rightarrow> s)
      else s)"

definition renderGallery :: "state \<Rightarrow> state" where
  "renderGallery s =
     (if jobList s = [] then s\<lparr>gallery := []\<rparr>
      else
        (let s1 = s\<lparr>gallery := map job_id (jobList s)\<rparr>
         in case expandedJobId s1 of
              None \<Rightarrow> s1
            | Some e \<Rightarrow> if e = [] then s1 else fetchAndRenderDetail e False s1))"

definition toggleJob :: "string \<Rightarrow> state \<Rightarrow> state" where
  "toggleJob jobId s =
     (if expandedJobId s = Some jobId then renderGallery (s\<lparr>expandedJobId := None\<rparr>)
      else renderGallery (s\<lparr>expandedJobId := Some jobId\<rparr>))"

subsection \<open>Event handler\<close>

text \<open>\<^verbatim>\<open>updateJobStage\<close>: the first entry with the id gets the stage; no entry, no effect.\<close>

fun set_stage :: "string \<Rightarrow> string option \<Rightarrow> summary list \<Rightarrow> summary list" where
  "set_stage jobId st [] = []"
| "set_stage jobId st (j # js) =
     (if job_id j = jobId then j\<lparr>stage := st\<rparr> # js else j # set_stage jobId st js)"

definition updateJobStage :: "string \<Rightarrow> string option \<Rightarrow> state \<Rightarrow> state" where
  "updateJobStage jobId st s = s\<lparr>jobList := set_stage jobId st (jobList s)\<rparr>"

definition invalidate :: "string \<Rightarrow> state \<Rightarrow> state" where
  "invalidate jobId s = s\<lparr>jobDetailCache := (jobDetailCache s)(jobId := None)\<rparr>"

definition push_log :: "log_entry \<Rightarrow> state \<Rightarrow> state" where
  "push_log e s = s\<lparr>agentLog := agentLog s @ [e]\<rparr>"

text \<open>
  \<^verbatim>\<open>handleEvent\<close>. The result is the state reached and the exception thrown, if any:
  reading a property of a missing \<^verbatim>\<open>data\<close> throws a \<^verbatim>\<open>TypeError\<close> at that point of the
  case, after the statements before it have run. The log entry keeps the event's
  timestamp (the source formats it as a local time of day).
\<close>

definition handleEvent :: "event \<Rightarrow> state \<Rightarrow> error option \<times> state" where
  "handleEvent ev s =
     (let type = ev_type ev; jid = ev_job_id ev; data = ev_data ev; timestamp = ev_timestamp ev
      in
      if type = ''job_started'' then
        (let s1 = renderPipeline (Some ''research'')
                    (showPipelineCards (s\<lparr>currentJobId := Some jid, agentLog := []\<rparr>))
         in if find (\<lambda>j. job_id j = jid) (jobList s1) = None then
              (case data of
                 None \<Rightarrow> (Some TypeError, s1)
               | Some d \<Rightarrow>
                   (None, renderGallery (invalidate jid
                      (s1\<lparr>jobList :=
                           \<lparr>job_id = jid, prompt = or_else (d_prompt d) '''',
                            stage = Some ''research'', created_at = timestamp,
                            completed_at = None, image_count = 0,
                            winner = None, winner_path = None\<rparr> # jobList s1\<rparr>))))
            else (None, renderGallery (invalidate jid s1)))
      else if type = ''stage_changed'' then
        (case data of
           None \<Rightarrow> (Some TypeError, s)
         | Some d \<Rightarrow> (None, updateJobStage jid (d_stage d) (renderPipeline (d_stage d) s)))
      else if type = ''agent_message'' \<or> type = ''progress'' then
        (case data of
           None \<Rightarrow> (Some TypeError, s)
         | Some d \<Rightarrow>
             (None, renderAgentLog (push_log
                \<lparr>agent = d_agent d, message = d_message d, time = timestamp\<rparr> s)))
      else if type = ''image_generated'' then (None, invalidate jid s)
      else if type = ''variant_scored'' then (None, invalidate jid s)
      else if type = ''image_refined'' then
        (let s1 = invalidate jid s;
             s2 = (if expandedJobId s1 = Some jid then fetchAndRenderDetail jid True s1 else s1)
         in case data of
              None \<Rightarrow> (Some TypeError, s2)
            | Some d \<Rightarrow>
                (None, renderAgentLog (push_log
                   \<lparr>agent = Some ''generator'',
                    message = Some (''F'' @ [CHR 0xC3, CHR 0xB6] @ ''rfinad variant: ''
                                    @ or_else (d_variant d) ''''),
                    time = timestamp\<rparr> s2)))
      else if type = ''job_completed'' then
        (let s1 = renderGallery (invalidate jid
                    (renderPipeline (Some ''complete'') (updateJobStage jid (Some ''complete'') s)))
         in (None, if expandedJobId s1 = Some jid then fetchAndRenderDetail jid False s1 else s1))
      else if type = ''job_failed'' then
        (let s1 = renderPipeline (Some ''failed'') (updateJobStage jid (Some ''failed'') s)
         in case data of
              None \<Rightarrow> (Some TypeError, s1)
            | Some d \<Rightarrow>
                (None, renderGallery (renderAgentLog (push_log
                   \<lparr>agent = Some ''system'',
                    message = Some (''Fel: '' @ or_else (d_error d) ''unknown''),
                    time = timestamp\<rparr> s1))))
      else (None, s))"

subsection \<open>Catalog queries, timers and the search box\<close>

text \<open>
  \<^verbatim>\<open>loadJobs\<close> up to its \<^verbatim>\<open>await\<close>: the query carries the trimmed search text and the
  sort key, each only when it is not empty.
\<close>

definition loadJobs :: "state \<Rightarrow> state" where
  "loadJobs s =
     (let search = trim (searchInput s); sort = sortSelect s
      in issue (GetJobs (if search = [] then None else Some search)
                        (if sort = [] then None else Some sort)) s)"

text \<open>
  The rest of \<^verbatim>\<open>loadJobs\<close>, run when the reply to request \<open>i\<close> arrives. The function
  does not test \<^verbatim>\<open>res.ok\<close>, so a reply counts by its body alone, whatever its status:
  \<^item> \<open>Listed l\<close>: the body parses to the list \<open>l\<close>, which becomes the catalog, and the
    gallery is rendered;
  \<^item> \<open>Rejected\<close>: the fetch is rejected or the body does not parse; the exception is
    caught and logged, the catalog stays;
  \<^item> \<open>ErrorBody\<close>: the body parses to a value that is no list, such as the JSON object
    of an error reply; \<^verbatim>\<open>jobList\<close> then holds that value, and for an object
    \<^verbatim>\<open>renderGallery\<close> shows the empty gallery and nothing is logged. The state type
    of this model takes the catalog to be a list, so this outcome is the fault
    \<open>NotAList\<close> and no state.
\<close>

datatype jobs_reply = Rejected | Listed "summary list" | ErrorBody

datatype fault = NotAList

definition jobs_listed :: "nat \<Rightarrow> summary list \<Rightarrow> state \<Rightarrow> state" where
  "jobs_listed i l s =
     (if i \<in> set (inflight s) \<and> i < length (requests s) then
        (case requests s ! i of
           GetJobs _ _ \<Rightarrow> renderGallery (s\<lparr>inflight := removeAll i (inflight s), jobList := l\<rparr>)
         | GetDetail _ \<Rightarrow> s)
      else s)"

definition jobs_rejected :: "nat \<Rightarrow> state \<Rightarrow> state" where
  "jobs_rejected i s =
     (if i \<in> set (inflight s) \<and> i < length (requests s) then
        (case requests s ! i of
           GetJobs _ _ \<Rightarrow>
             s\<lparr>inflight := removeAll i (inflight s),
               console := console s @ [''Failed to load jobs:'']\<rparr>
         | GetDetail _ \<Rightarrow> s)
      else s)"

definition jobs_response :: "nat \<Rightarrow> jobs_reply \<Rightarrow> state \<Rightarrow> fault + state" where
  "jobs_response i reply s =
     (case reply of
        Listed l \<Rightarrow> Inr (jobs_listed i l s)
      | Rejected \<Rightarrow> Inr (jobs_rejected i s)
      | ErrorBody \<Rightarrow>
          (if i \<in> set (inflight s) \<and> i < length (requests s) then
             (case requests s ! i of
                GetJobs _ _ \<Rightarrow> Inl NotAList
              | GetDetail _ \<Rightarrow> Inr s)
           else Inr s))"

text \<open>
  \<^verbatim>\<open>setTimeout\<close> at the time \<open>now\<close> registers the callback with a fresh id and the due
  time \<open>now + delay\<close>; \<^verbatim>\<open>clearTimeout\<close> drops the timer with the id, if it is pending.
\<close>

definition setTimeout :: "callback \<Rightarrow> nat \<Rightarrow> nat \<Rightarrow> state \<Rightarrow> nat \<times> state" where
  "setTimeout cb delay now s =
     (next_timer s,
      s\<lparr>timers := timers s @ [(next_timer s, now + delay, cb)],
        next_timer := Suc (next_timer s)\<rparr>)"

definition clearTimeout :: "nat option \<Rightarrow> state \<Rightarrow> state" where
  "clearTimeout t s =
     (case t of None \<Rightarrow> s | Some k \<Rightarrow> s\<lparr>timers := filter (\<lambda>x. fst x \<noteq> k) (timers s)\<rparr>)"

text \<open>The \<^verbatim>\<open>input\<close> listener of the search box, run at the time \<open>now\<close>.\<close>

definition on_search_input :: "nat \<Rightarrow> state \<Rightarrow> state" where
  "on_search_input now s =
     (let s1 = clearTimeout (searchDebounce s) s;
          r = setTimeout LoadJobs 350 now s1
      in (snd r)\<lparr>searchDebounce := Some (fst r)\<rparr>)"

text \<open>The user sets the search text to \<open>v\<close> at the time \<open>now\<close>; the user picks the sort key \<open>v\<close>.\<close>

definition type_search :: "string \<Rightarrow> nat \<Rightarrow> state \<Rightarrow> state" where
  "type_search v now s = on_search_input now (s\<lparr>searchInput := v\<rparr>)"

definition change_sort :: "string \<Rightarrow> state \<Rightarrow> state" where
  "change_sort v s = loadJobs (s\<lparr>sortSelect := v\<rparr>)"

subsection \<open>Connection manager\<close>

definition connect :: "state \<Rightarrow> state" where
  "connect s = s\<lparr>ws := Some (next_socket s), next_socket := Suc (next_socket s)\<rparr>"

definition ws_onopen :: "state \<Rightarrow> state" where
  "ws_onopen s = s\<lparr>statusDot := ''status-dot connected'', statusText := ''Ansluten''\<rparr>"

definition ws_onclose :: "nat \<Rightarrow> state \<Rightarrow> state" where
  "ws_onclose now s =
     snd (setTimeout Connect 3000 now
       (s\<lparr>statusDot := ''status-dot disconnected'',
          statusText := ''Fr'' @ [CHR 0xC3, CHR 0xA5] @ ''nkopplad''\<rparr>))"

text \<open>\<^verbatim>\<open>ws.onerror = () => ws.close()\<close>: it closes the socket the variable holds.\<close>

definition ws_onerror :: "state \<Rightarrow> state" where
  "ws_onerror s =
     (case ws s of None \<Rightarrow> s | Some k \<Rightarrow> s\<lparr>close_calls := close_calls s @ [k]\<rparr>)"

text \<open>
  \<^verbatim>\<open>ws.onmessage\<close>. \<open>parse\<close> is \<^verbatim>\<open>JSON.parse\<close> followed by the destructuring of the
  envelope: \<open>None\<close> when the text is not JSON (or is \<^verbatim>\<open>null\<close>), so that an exception
  leaves the \<^verbatim>\<open>try\<close> before the handler has run. An exception of the handler itself is
  caught by the same \<^verbatim>\<open>catch\<close>.
\<close>

definition ws_onmessage :: "(string \<Rightarrow> event option) \<Rightarrow> string \<Rightarrow> state \<Rightarrow> state" where
  "ws_onmessage parse payload s =
     (case parse payload of
        None \<Rightarrow> s\<lparr>console := console s @ [''WS parse error:'']\<rparr>
      | Some ev \<Rightarrow>
          (case handleEvent ev s of
             (None, s') \<Rightarrow> s'
           | (Some e, s') \<Rightarrow> s'\<lparr>console := console s' @ [''WS parse error:'']\<rparr>))"

section \<open>The earlier WebSocket dashboard\<close>

text \<open>
  Its store is the object \<^verbatim>\<open>jobs\<close>, keyed by job id; each job carries the images, the
  scores and the log entries the events brought. The markup of the job list and of the
  image grid is not modelled, only whether rendering the grid throws.
\<close>

record image1 =
  i_variant :: "string option"
  i_file_path :: "string option"
  i_index :: "int option"

record score1 =
  s_variant :: "string option"
  s_scores :: "(string \<rightharpoonup> real) option"
  s_rank :: "int option"
  s_review :: "string option"

record job1 =
  j_id :: string
  j_stage :: "string option"
  j_prompt :: string
  j_images :: "image1 list"
  j_scores :: "score1 list"
  j_agentLog :: "log_entry list"

record state1 =
  currentJobId1 :: "string option"
  jobs :: "string \<rightharpoonup> job1"
  agentLog1 :: "log_entry list"
  stages_html1 :: "stage_view list"
  agentLog_html1 :: "log_entry list"
  jobTitle :: string
  console1 :: "string list"

definition renderPipeline1 :: "job1 \<Rightarrow> state1 \<Rightarrow> state1" where
  "renderPipeline1 job s = s\<lparr>stages_html1 := pipeline_view (j_stage job)\<rparr>"

definition renderAgentLog1 :: "state1 \<Rightarrow> state1" where
  "renderAgentLog1 s = s\<lparr>agentLog_html1 := drop (length (agentLog1 s) - 30) (agentLog1 s)\<rparr>"

definition addAgentLogEntry :: "log_entry \<Rightarrow> state1 \<Rightarrow> state1" where
  "addAgentLogEntry e s = renderAgentLog1 (s\<lparr>agentLog1 := agentLog1 s @ [e]\<rparr>)"

definition clearImages :: "state1 \<Rightarrow> state1" where
  "clearImages s = s\<lparr>agentLog1 := [], agentLog_html1 := []\<rparr>"

text \<open>
  \<^verbatim>\<open>renderImages\<close> throws a \<^verbatim>\<open>TypeError\<close> when an image has no \<^verbatim>\<open>file_path\<close>
  (\<^verbatim>\<open>img.file_path.includes\<close>), or when the score entry found for its variant has no
  \<^verbatim>\<open>scores\<close> or lacks one of the numbers it formats with \<^verbatim>\<open>toFixed\<close>.
\<close>

definition score_renders :: "score1 \<Rightarrow> bool" where
  "score_renders sd =
     (case s_scores sd of
        None \<Rightarrow> False
      | Some m \<Rightarrow>
          list_all (\<lambda>d. m d \<noteq> None)
            [''faithfulness'', ''conciseness'', ''readability'', ''aesthetics'', ''total''])"

definition image_renders :: "score1 list \<Rightarrow> image1 \<Rightarrow> bool" where
  "image_renders scores img =
     (i_file_path img \<noteq> None \<and>
      (case find (\<lambda>sc. s_variant sc = i_variant img) scores of
         None \<Rightarrow> True
       | Some sd \<Rightarrow> score_renders sd))"

definition renderImages :: "job1 \<Rightarrow> error option" where
  "renderImages job =
     (if list_all (image_renders (j_scores job)) (j_images job) then None else Some TypeError)"

definition put_job :: "string \<Rightarrow> job1 \<Rightarrow> state1 \<Rightarrow> state1" where
  "put_job jid job s = s\<lparr>jobs := (jobs s)(jid \<mapsto> job)\<rparr>"

text \<open>
  The first statement of the handler (``Track job''): a job id not in the store gets an
  entry with the stage \<^verbatim>\<open>queued\<close>, the prompt of the event and empty lists.
\<close>

definition track_job :: "event \<Rightarrow> state1 \<Rightarrow> error option \<times> state1" where
  "track_job ev s =
     (if jobs s (ev_job_id ev) = None then
        (case ev_data ev of
           None \<Rightarrow> (Some TypeError, s)
         | Some d \<Rightarrow>
             (None, put_job (ev_job_id ev)
                \<lparr>j_id = ev_job_id ev, j_stage = Some ''queued'',
                 j_prompt = or_else (d_prompt d) [],
                 j_images = [], j_scores = [], j_agentLog = []\<rparr> s))
      else (None, s))"

text \<open>The \<^verbatim>\<open>switch\<close> of the handler, on the tracked job.\<close>

definition dispatch1 :: "event \<Rightarrow> job1 \<Rightarrow> state1 \<Rightarrow> error option \<times> state1" where
  "dispatch1 ev job s =
     (let type = ev_type ev; jid = ev_job_id ev; data = ev_data ev; timestamp = ev_timestamp ev
      in
      if type = ''job_started'' then
        (case data of
           None \<Rightarrow> (Some TypeError, s)
         | Some d \<Rightarrow>
             (let job' = job\<lparr>j_prompt := or_else (d_prompt d) (j_prompt job),
                             j_stage := Some ''research''\<rparr>;
                  s1 = clearImages (renderPipeline1 job'
                         ((put_job jid job' s)\<lparr>currentJobId1 := Some jid\<rparr>))
              in (None, s1\<lparr>jobTitle := or_else (Some (j_prompt job')) ''Nytt jobb''\<rparr>)))
      else if type = ''stage_changed'' then
        (case data of
           None \<Rightarrow> (Some TypeError, s)
         | Some d \<Rightarrow>
             (let job' = job\<lparr>j_stage := d_stage d\<rparr>
              in (None, renderPipeline1 job' (put_job jid job' s))))
      else if type = ''agent_message'' then
        (case data of
           None \<Rightarrow> (Some TypeError, s)
         | Some d \<Rightarrow>
             (let logEntry = \<lparr>agent = d_agent d, message = d_message d, time = timestamp\<rparr>;
                  job' = job\<lparr>j_agentLog := j_agentLog job @ [logEntry]\<rparr>
              in (None, renderAgentLog1
                    (put_job jid job' (s\<lparr>agentLog1 := agentLog1 s @ [logEntry]\<rparr>)))))
      else if type = ''progress'' then
        (case data of
           None \<Rightarrow> (Some TypeError, s)
         | Some d \<Rightarrow>
             (None, addAgentLogEntry
                \<lparr>agent = d_agent d, message = d_message d, time = timestamp\<rparr> s))
      else if type = ''image_generated'' then
        (case data of
           None \<Rightarrow> (Some TypeError, s)
         | Some d \<Rightarrow>
             (let job' = job\<lparr>j_images := j_images job @
                    [\<lparr>i_variant = d_variant d, i_file_path = d_file_path d,
                      i_index = d_index d\<rparr>]\<rparr>
              in (renderImages job', put_job jid job' s)))
      else if type = ''variant_scored'' then
        (case data of
           None \<Rightarrow> (Some TypeError, s)
         | Some d \<Rightarrow>
             (let job' = job\<lparr>j_scores := j_scores job @
                    [\<lparr>s_variant = d_variant d, s_scores = d_scores d,
                      s_rank = d_rank d, s_review = d_review d\<rparr>]\<rparr>
              in (renderImages job', put_job jid job' s)))
      else if type = ''job_completed'' then
        (let job' = job\<lparr>j_stage := Some ''complete''\<rparr>
         in (None, renderPipeline1 job' (put_job jid job' s)))
      else if type = ''job_failed'' then
        (let job' = job\<lparr>j_stage := Some ''failed''\<rparr>;
             s1 = renderPipeline1 job' (put_job jid job' s)
         in case data of
              None \<Rightarrow> (Some TypeError, s1)
            | Some d \<Rightarrow>
                (None, addAgentLogEntry
                   \<lparr>agent = Some ''system'',
                    message = Some (''Fel: '' @
                      (case d_error d of None \<Rightarrow> ''undefined'' | Some e \<Rightarrow> e)),
                    time = timestamp\<rparr> s1))
      else (None, s))"

definition handleEvent1 :: "event \<Rightarrow> state1 \<Rightarrow> error option \<times> state1" where
  "handleEvent1 ev s =
     (case track_job ev s of
        (Some e, s0) \<Rightarrow> (Some e, s0)
      | (None, s0) \<Rightarrow>
          (case jobs s0 (ev_job_id ev) of
             None \<Rightarrow> (None, s0)
           | Some job \<Rightarrow> dispatch1 ev job s0))"

definition ws_onmessage1 :: "(string \<Rightarrow> event option) \<Rightarrow> string \<Rightarrow> state1 \<Rightarrow> state1" where
  "ws_onmessage1 parse payload s =
     (case parse payload of
        None \<Rightarrow> s\<lparr>console1 := console1 s @ [''WS parse error:'']\<rparr>
      | Some ev \<Rightarrow>
          (case handleEvent1 ev s of
             (None, s') \<Rightarrow> s'
           | (Some e, s') \<Rightarrow> s'\<lparr>console1 := console1 s' @ [''WS parse error:'']\<rparr>))"

section \<open>Running the timers of the gallery dashboard\<close>

definition run_callback :: "callback \<Rightarrow> state \<Rightarrow> state" where
  "run_callback cb s = (case cb of LoadJobs \<Rightarrow> loadJobs s | Connect \<Rightarrow> connect s)"

text \<open>Timer \<open>k\<close> fires: it leaves the pending timers and its callback runs.\<close>

definition fire :: "nat \<Rightarrow> state \<Rightarrow> state" where
  "fire k s =
     (case find (\<lambda>x. fst x = k) (timers s) of
        None \<Rightarrow> s
      | Some x \<Rightarrow> run_callback (snd (snd x)) (s\<lparr>timers := filter (\<lambda>x. fst x \<noteq> k) (timers s)\<rparr>))"

text \<open>The pending timer that is due first (the one registered first among equals).\<close>

fun earliest :: "(nat \<times> nat \<times> callback) list \<Rightarrow> (nat \<times> nat \<times> callback) option" where
  "earliest [] = None"
| "earliest (x # xs) =
     (case earliest xs of
        None \<Rightarrow> Some x
      | Some y \<Rightarrow> if fst (snd x) \<le> fst (snd y) then Some x else Some y)"

definition next_due :: "nat \<Rightarrow> (nat \<times> nat \<times> callback) list \<Rightarrow> (nat \<times> nat \<times> callback) option" where
  "next_due t ts = earliest (filter (\<lambda>x. fst (snd x) \<le> t) ts)"

lemma earliest_mem: "earliest xs = Some x \<Longrightarrow> x \<in> set xs"
  by (induction xs arbitrary: x) (auto split: option.splits if_splits)

lemma next_due_mem: "next_due t ts = Some x \<Longrightarrow> x \<in> set ts \<and> fst (snd x) \<le> t"
  using earliest_mem [of "filter (\<lambda>x. fst (snd x) \<le> t) ts" x] by (simp add: next_due_def)

lemma timers_run_callback: "timers (run_callback cb s) = timers s"
  by (cases cb) (simp_all add: run_callback_def loadJobs_def issue_def connect_def Let_def)

lemma find_fst_mem: "x \<in> set ts \<Longrightarrow> find (\<lambda>y. fst y = fst x) ts \<noteq> None"
  by (induction ts) auto

lemma filter_fst_shorter: "x \<in> set ts \<Longrightarrow> length (filter (\<lambda>y. fst y \<noteq> fst x) ts) < length ts"
  by (induction ts) (auto simp: less_Suc_eq_le)

lemma fire_shorter: "x \<in> set (timers s) \<Longrightarrow> length (timers (fire (fst x) s)) < length (timers s)"
  using find_fst_mem [of x "timers s"] filter_fst_shorter [of x "timers s"]
  by (auto simp: fire_def timers_run_callback split: option.splits)

text \<open>
  Time passes until \<open>t\<close> with no other event: every timer due by then fires, in the
  order of the due times.
\<close>

function advance :: "nat \<Rightarrow> state \<Rightarrow> state" where
  "advance t s =
     (case next_due t (timers s) of
        None \<Rightarrow> s
      | Some x \<Rightarrow> advance t (fire (fst x) s))"
  by pat_completeness auto
termination
  by (relation "measure (\<lambda>p. length (timers (snd p)))")
     (auto dest!: next_due_mem intro: fire_shorter)

declare advance.simps [simp del]

text \<open>
  The user types: at each time of the list the search text becomes the given value,
  after the timers due by then have fired.
\<close>

fun typing :: "(nat \<times> string) list \<Rightarrow> state \<Rightarrow> state" where
  "typing [] s = s"
| "typing (tv # rest) s = typing rest (type_search (snd tv) (fst tv) (advance (fst tv) s))"

section \<open>Observations and sample values\<close>

text \<open>The stage the catalog shows for a job id: that of the entry \<^verbatim>\<open>find\<close> returns.\<close>

definition stage_of :: "string \<Rightarrow> summary list \<Rightarrow> string option option" where
  "stage_of J l = map_option stage (find (\<lambda>j. job_id j = J) l)"

text \<open>A list of push events handled one after the other (an exception ends only its own event).\<close>

fun handle_all :: "event list \<Rightarrow> state \<Rightarrow> state" where
  "handle_all [] s = s"
| "handle_all (ev # evs) s = handle_all evs (snd (handleEvent ev s))"

text \<open>
  The state the gallery dashboard starts in (the initial values of its module variables,
  an empty page), and that of the earlier dashboard.
\<close>

definition init_state :: state where
  "init_state =
     \<lparr>currentJobId = None, expandedJobId = None, jobList = [], jobDetailCache = Map.empty,
      agentLog = [], searchDebounce = None, statusDot = [], statusText = [],
      stages_html = [], agentLog_html = [], cards_shown = False, gallery = [],
      searchInput = [], sortSelect = [], requests = [], inflight = [], timers = [],
      next_timer = 1, ws = None, next_socket = 0, close_calls = [], console = []\<rparr>"

definition init_state1 :: state1 where
  "init_state1 =
     \<lparr>currentJobId1 = None, jobs = Map.empty, agentLog1 = [], stages_html1 = [],
      agentLog_html1 = [], jobTitle = [], console1 = []\<rparr>"

text \<open>The data object \<^verbatim>\<open>{}\<close>, and an envelope for the job \<^verbatim>\<open>abc123\<close> of the spec's scenarios.\<close>

definition empty_data :: edata where
  "empty_data =
     \<lparr>d_prompt = None, d_stage = None, d_agent = None, d_message = None, d_variant = None,
      d_error = None, d_file_path = None, d_index = None, d_scores = None, d_rank = None,
      d_review = None\<rparr>"

definition envelope :: "string \<Rightarrow> edata \<Rightarrow> event" where
  "envelope ty d =
     \<lparr>ev_type = ty, ev_job_id = ''abc123'', ev_data = Some d,
      ev_timestamp = ''2026-01-01T10:00:00Z''\<rparr>"

definition stage_data :: "string \<Rightarrow> edata" where
  "stage_data st = empty_data\<lparr>d_stage := Some st\<rparr>"

definition detail_of :: "string \<Rightarrow> detail" where
  "detail_of st = \<lparr>dt_job_id = ''abc123'', dt_stage = Some st, dt_summary = None\<rparr>"

definition summary_of :: "string \<Rightarrow> summary" where
  "summary_of st =
     \<lparr>job_id = ''abc123'', prompt = ''a red bicycle'', stage = Some st,
      created_at = ''2026-01-01T09:59:00Z'', completed_at = None, image_count = 6,
      winner = None, winner_path = None\<rparr>"

text \<open>The job has started and its card is in the gallery.\<close>

definition started :: state where
  "started = snd (handleEvent (envelope ''job_started'' empty_data) init_state)"

text \<open>The user has opened the card, the detail has arrived, and the user has closed the card.\<close>

definition viewed :: state where
  "viewed =
     toggleJob ''abc123''
       (detail_response 0 (Some (detail_of ''generating'')) (toggleJob ''abc123'' started))"

text \<open>The fields of a summary other than its stage.\<close>

definition other_fields ::
  "summary \<Rightarrow> string \<times> string \<times> string \<times> string option \<times> nat \<times> string option \<times> string option" where
  "other_fields j =
     (job_id j, prompt j, created_at j, completed_at j, image_count j, winner j, winner_path j)"

text \<open>
  The catalog was loaded while the server listed the job as queued; the catalog was
  loaded with two jobs.
\<close>

definition listed :: state where
  "listed = jobs_listed 0 [summary_of ''queued''] (loadJobs init_state)"

definition two_jobs :: state where
  "two_jobs =
     jobs_listed 0
       [summary_of ''generating'', (summary_of ''complete'')\<lparr>job_id := ''def456''\<rparr>]
       (loadJobs init_state)"

text \<open>
  The user opens the card of the started job and an \<^verbatim>\<open>image_refined\<close> event arrives
  before the detail does.
\<close>

definition racing :: state where
  "racing =
     snd (handleEvent (envelope ''image_refined'' empty_data) (toggleJob ''abc123'' started))"

text \<open>
  A sequence of changes of the search text, each with its time: every change comes less
  than 350 ms after the one before it.
\<close>

fun burst :: "(nat \<times> string) list \<Rightarrow> bool" where
  "burst [] = True"
| "burst [x] = True"
| "burst (x # y # r) = (fst x \<le> fst y \<and> fst y < fst x + 350 \<and> burst (y # r))"

text \<open>The catalog query \<^verbatim>\<open>loadJobs\<close> sends for a search text and a sort key.\<close>

definition query :: "string \<Rightarrow> string \<Rightarrow> request" where
  "query v k =
     GetJobs (if trim v = [] then None else Some (trim v)) (if k = [] then None else Some k)"

text \<open>
  The pending timers that will send a catalog query. Timer ids are fresh when no two
  pending timers share one and the counter is above them all, as \<^verbatim>\<open>setTimeout\<close> keeps it.
  The search box is armed at \<open>t\<close> with \<open>v\<close> when the text is \<open>v\<close> and the one pending
  query timer is the one \<^verbatim>\<open>searchDebounce\<close> holds, due 350 ms after \<open>t\<close>.
\<close>

definition pending_queries :: "state \<Rightarrow> (nat \<times> nat \<times> callback) list" where
  "pending_queries s = filter (\<lambda>x. snd (snd x) = LoadJobs) (timers s)"

definition timer_ids_fresh :: "state \<Rightarrow> bool" where
  "timer_ids_fresh s =
     (distinct (map fst (timers s)) \<and> list_all (\<lambda>x. fst x < next_timer s) (timers s))"

definition armed :: "nat \<Rightarrow> string \<Rightarrow> state \<Rightarrow> bool" where
  "armed t v s =
     (timer_ids_fresh s \<and> searchInput s = v \<and>
      (case searchDebounce s of
         None \<Rightarrow> False
       | Some k \<Rightarrow> pending_queries s = [(k, t + 350, LoadJobs)]))"





text \<open>The event types the \<^verbatim>\<open>switch\<close> of the handlers has a case for.\<close>

definition event_types :: "string list" where
  "event_types =
     [''job_started'', ''stage_changed'', ''agent_message'', ''progress'', ''image_generated'',
      ''variant_scored'', ''image_refined'', ''job_completed'', ''job_failed'']"

text \<open>
  Three payloads and what \<^verbatim>\<open>JSON.parse\<close> and the destructuring make of them: a text
  that is cut off, which is not JSON; an envelope of the type \<^verbatim>\<open>job_failed\<close> that has
  no \<^verbatim>\<open>data\<close>; an envelope of a type the handlers do not know, without \<^verbatim>\<open>data\<close> either.
\<close>

definition broken_payload :: string where
  "broken_payload = ''{\"type\":\"job_failed\",\"job_id\":''"

definition no_data_payload :: string where
  "no_data_payload =
     ''{\"type\":\"job_failed\",\"job_id\":\"abc123\",\"timestamp\":\"2026-01-01T10:05:00Z\"}''"

definition unknown_type_payload :: string where
  "unknown_type_payload =
     ''{\"type\":\"ping\",\"job_id\":\"abc123\",\"timestamp\":\"2026-01-01T10:05:00Z\"}''"

definition sample_parse :: "string \<Rightarrow> event option" where
  "sample_parse p =
     (if p = no_data_payload then
        Some \<lparr>ev_type = ''job_failed'', ev_job_id = ''abc123'', ev_data = None,
              ev_timestamp = ''2026-01-01T10:05:00Z''\<rparr>
      else if p = unknown_type_payload then
        Some \<lparr>ev_type = ''ping'', ev_job_id = ''abc123'', ev_data = None,
              ev_timestamp = ''2026-01-01T10:05:00Z''\<rparr>
      else None)"

text \<open>
  The gallery dashboard with its socket open and the job started; the earlier dashboard
  with the job started.
\<close>

definition online :: state where
  "online = snd (handleEvent (envelope ''job_started'' empty_data) (ws_onopen (connect init_state)))"

definition online1 :: state1 where
  "online1 = snd (handleEvent1 (envelope ''job_started'' empty_data) init_state1)"

section \<open>Effects of the operations, field by field\<close>

lemma fetchAndRenderDetail_frame [simp]:
  "currentJobId (fetchAndRenderDetail j b s) = currentJobId s"
  "expandedJobId (fetchAndRenderDetail j b s) = expandedJobId s"
  "jobList (fetchAndRenderDetail j b s) = jobList s"
  "jobDetailCache (fetchAndRenderDetail j b s) = jobDetailCache s"
  "agentLog (fetchAndRenderDetail j b s) = agentLog s"
  "searchDebounce (fetchAndRenderDetail j b s) = searchDebounce s"
  "statusDot (fetchAndRenderDetail j b s) = statusDot s"
  "statusText (fetchAndRenderDetail j b s) = statusText s"
  "stages_html (fetchAndRenderDetail j b s) = stages_html s"
  "agentLog_html (fetchAndRenderDetail j b s) = agentLog_html s"
  "cards_shown (fetchAndRenderDetail j b s) = cards_shown s"
  "gallery (fetchAndRenderDetail j b s) = gallery s"
  "searchInput (fetchAndRenderDetail j b s) = searchInput s"
  "sortSelect (fetchAndRenderDetail j b s) = sortSelect s"
  "timers (fetchAndRenderDetail j b s) = timers s"
  "next_timer (fetchAndRenderDetail j b s) = next_timer s"
  "ws (fetchAndRenderDetail j b s) = ws s"
  "next_socket (fetchAndRenderDetail j b s) = next_socket s"
  "close_calls (fetchAndRenderDetail j b s) = close_calls s"
  "console (fetchAndRenderDetail j b s) = console s"
  by (simp_all add: fetchAndRenderDetail_def issue_def)

lemma renderGallery_frame [simp]:
  "currentJobId (renderGallery s) = currentJobId s"
  "expandedJobId (renderGallery s) = expandedJobId s"
  "jobList (renderGallery s) = jobList s"
  "jobDetailCache (renderGallery s) = jobDetailCache s"
  "agentLog (renderGallery s) = agentLog s"
  "searchDebounce (renderGallery s) = searchDebounce s"
  "statusDot (renderGallery s) = statusDot s"
  "statusText (renderGallery s) = statusText s"
  "stages_html (renderGallery s) = stages_html s"
  "agentLog_html (renderGallery s) = agentLog_html s"
  "cards_shown (renderGallery s) = cards_shown s"
  "searchInput (renderGallery s) = searchInput s"
  "sortSelect (renderGallery s) = sortSelect s"
  "timers (renderGallery s) = timers s"
  "next_timer (renderGallery s) = next_timer s"
  "ws (renderGallery s) = ws s"
  "next_socket (renderGallery s) = next_socket s"
  "close_calls (renderGallery s) = close_calls s"
  "console (renderGallery s) = console s"
  by (simp_all add: renderGallery_def Let_def split: option.splits)

lemmas simple_defs = renderPipeline_def showPipelineCards_def renderAgentLog_def push_log_def
  invalidate_def updateJobStage_def

lemma requests_fetchAndRenderDetail:
  "requests (fetchAndRenderDetail j b s) =
     (if j \<in> set (gallery s) \<and> (b \<or> jobDetailCache s j = None)
      then requests s @ [GetDetail j] else requests s)"
  by (auto simp: fetchAndRenderDetail_def issue_def)

lemma inflight_fetchAndRenderDetail:
  "inflight (fetchAndRenderDetail j b s) =
     (if j \<in> set (gallery s) \<and> (b \<or> jobDetailCache s j = None)
      then inflight s @ [length (requests s)] else inflight s)"
  by (auto simp: fetchAndRenderDetail_def issue_def)

lemma gallery_renderGallery [simp]: "gallery (renderGallery s) = map job_id (jobList s)"
  by (simp add: renderGallery_def Let_def split: option.splits)

lemma requests_renderGallery:
  "requests (renderGallery s) =
     (case expandedJobId s of
        None \<Rightarrow> requests s
      | Some e \<Rightarrow>
          if e \<noteq> [] \<and> e \<in> job_id ` set (jobList s) \<and> jobDetailCache s e = None
          then requests s @ [GetDetail e] else requests s)"
  by (auto simp: renderGallery_def Let_def requests_fetchAndRenderDetail split: option.splits)

lemma inflight_renderGallery:
  "inflight (renderGallery s) =
     (case expandedJobId s of
        None \<Rightarrow> inflight s
      | Some e \<Rightarrow>
          if e \<noteq> [] \<and> e \<in> job_id ` set (jobList s) \<and> jobDetailCache s e = None
          then inflight s @ [length (requests s)] else inflight s)"
  by (auto simp: renderGallery_def Let_def inflight_fetchAndRenderDetail split: option.splits)

lemma handleEvent_jobDetailCache:
  "jobDetailCache (snd (handleEvent ev s)) =
     (if ev_type ev \<in> {''image_generated'', ''variant_scored'', ''image_refined'', ''job_completed''}
         \<or> ev_type ev = ''job_started'' \<and>
           (ev_data ev \<noteq> None \<or> find (\<lambda>j. job_id j = ev_job_id ev) (jobList s) \<noteq> None)
      then (jobDetailCache s)(ev_job_id ev := None)
      else jobDetailCache s)"
  by (simp add: handleEvent_def Let_def simple_defs split: option.splits)

lemma handleEvent_jobList:
  "jobList (snd (handleEvent ev s)) =
     (if ev_type ev = ''job_started'' then
        (case (find (\<lambda>j. job_id j = ev_job_id ev) (jobList s), ev_data ev) of
           (None, Some d) \<Rightarrow>
             \<lparr>job_id = ev_job_id ev, prompt = or_else (d_prompt d) [],
              stage = Some ''research'', created_at = ev_timestamp ev,
              completed_at = None, image_count = 0, winner = None, winner_path = None\<rparr>
             # jobList s
         | _ \<Rightarrow> jobList s)
      else if ev_type ev = ''stage_changed'' then
        (case ev_data ev of None \<Rightarrow> jobList s
         | Some d \<Rightarrow> set_stage (ev_job_id ev) (d_stage d) (jobList s))
      else if ev_type ev = ''job_completed'' then set_stage (ev_job_id ev) (Some ''complete'') (jobList s)
      else if ev_type ev = ''job_failed'' then set_stage (ev_job_id ev) (Some ''failed'') (jobList s)
      else jobList s)"
  by (simp add: handleEvent_def Let_def simple_defs split: option.splits)

lemma handleEvent_frame [simp]:
  "expandedJobId (snd (handleEvent ev s)) = expandedJobId s"
  "searchDebounce (snd (handleEvent ev s)) = searchDebounce s"
  "statusDot (snd (handleEvent ev s)) = statusDot s"
  "statusText (snd (handleEvent ev s)) = statusText s"
  "searchInput (snd (handleEvent ev s)) = searchInput s"
  "sortSelect (snd (handleEvent ev s)) = sortSelect s"
  "timers (snd (handleEvent ev s)) = timers s"
  "next_timer (snd (handleEvent ev s)) = next_timer s"
  "ws (snd (handleEvent ev s)) = ws s"
  "next_socket (snd (handleEvent ev s)) = next_socket s"
  "close_calls (snd (handleEvent ev s)) = close_calls s"
  "console (snd (handleEvent ev s)) = console s"
  by (simp_all add: handleEvent_def Let_def simple_defs split: option.splits)

lemma handleEvent_gallery:
  "gallery (snd (handleEvent ev s)) =
     (if ev_type ev = ''job_completed'' \<or> ev_type ev = ''job_failed'' \<and> ev_data ev \<noteq> None
         \<or> ev_type ev = ''job_started'' \<and>
           (ev_data ev \<noteq> None \<or> find (\<lambda>j. job_id j = ev_job_id ev) (jobList s) \<noteq> None)
      then map job_id (jobList (snd (handleEvent ev s)))
      else gallery s)"
  by (simp add: handleEvent_def Let_def simple_defs split: option.splits)

lemma toggleJob_frame [simp]:
  "jobList (toggleJob j s) = jobList s"
  "jobDetailCache (toggleJob j s) = jobDetailCache s"
  "gallery (toggleJob j s) = map job_id (jobList s)"
  "expandedJobId (toggleJob j s) = (if expandedJobId s = Some j then None else Some j)"
  by (simp_all add: toggleJob_def)

lemma requests_toggleJob:
  "requests (toggleJob j s) =
     (if expandedJobId s \<noteq> Some j \<and> j \<noteq> [] \<and> j \<in> job_id ` set (jobList s)
         \<and> jobDetailCache s j = None
      then requests s @ [GetDetail j] else requests s)"
  by (simp add: toggleJob_def requests_renderGallery)

lemma inflight_toggleJob:
  "inflight (toggleJob j s) =
     (if expandedJobId s \<noteq> Some j \<and> j \<noteq> [] \<and> j \<in> job_id ` set (jobList s)
         \<and> jobDetailCache s j = None
      then inflight s @ [length (requests s)] else inflight s)"
  by (simp add: toggleJob_def inflight_renderGallery)

lemma detail_response_frame [simp]:
  "jobList (detail_response i r s) = jobList s"
  "gallery (detail_response i r s) = gallery s"
  "expandedJobId (detail_response i r s) = expandedJobId s"
  "requests (detail_response i r s) = requests s"
  by (simp_all add: detail_response_def Let_def split: request.splits option.splits)

lemma jobDetailCache_detail_response:
  "jobDetailCache (detail_response i r s) =
     (if i \<in> set (inflight s) \<and> i < length (requests s) then
        (case (requests s ! i, r) of
           (GetDetail J, Some d) \<Rightarrow> (jobDetailCache s)(J \<mapsto> d)
         | _ \<Rightarrow> jobDetailCache s)
      else jobDetailCache s)"
  by (simp add: detail_response_def Let_def split: request.splits option.splits)

lemma inflight_detail_response:
  "inflight (detail_response i r s) =
     (if i \<in> set (inflight s) \<and> i < length (requests s) then
        (case requests s ! i of
           GetDetail J \<Rightarrow> removeAll i (inflight s)
         | GetJobs _ _ \<Rightarrow> inflight s)
      else inflight s)"
  by (simp add: detail_response_def Let_def split: request.splits option.splits)

lemma started_fields:
  "jobList started =
     [\<lparr>job_id = ''abc123'', prompt = [], stage = Some ''research'',
       created_at = ''2026-01-01T10:00:00Z'', completed_at = None, image_count = 0,
       winner = None, winner_path = None\<rparr>]"
  "expandedJobId started = None"
  "jobDetailCache started ''abc123'' = None"
  "requests started = []"
  "inflight started = []"
  by (simp_all add: started_def handleEvent_jobList handleEvent_jobDetailCache
      init_state_def envelope_def empty_data_def handleEvent_def Let_def simple_defs requests_renderGallery inflight_renderGallery)

lemma started_controls:
  "searchInput started = []" "sortSelect started = []" "timers started = []"
  "searchDebounce started = None"
  by (simp_all add: started_def init_state_def)

lemma viewed_fields:
  "jobList viewed = jobList started"
  "gallery viewed = [''abc123'']"
  "expandedJobId viewed = None"
  "jobDetailCache viewed ''abc123'' = Some (detail_of ''generating'')"
  "requests viewed = [GetDetail ''abc123'']"
  "inflight viewed = []"
  by (simp_all add: viewed_def started_fields requests_toggleJob inflight_toggleJob
       jobDetailCache_detail_response inflight_detail_response)

lemma handleEvent_stages_html:
  "stages_html (snd (handleEvent ev s)) =
     (if ev_type ev = ''job_started'' then pipeline_view (Some ''research'')
      else if ev_type ev = ''stage_changed'' then
        (case ev_data ev of None \<Rightarrow> stages_html s | Some d \<Rightarrow> pipeline_view (d_stage d))
      else if ev_type ev = ''job_completed'' then pipeline_view (Some ''complete'')
      else if ev_type ev = ''job_failed'' then pipeline_view (Some ''failed'')
      else stages_html s)"
  by (simp add: handleEvent_def Let_def simple_defs split: option.splits)

lemmas pipeline_defs = pipeline_view_def STAGES_def stage_cell_def enumerate_eq_zip upt_rec

section \<open>The pipeline view\<close>

text \<open>
  While a job is in one of the four displayed stages, the stages before it show
  \<^verbatim>\<open>done\<close>, its own shows \<^verbatim>\<open>active\<close> and the later ones \<^verbatim>\<open>pending\<close>; a complete job
  shows \<^verbatim>\<open>done\<close> throughout.
\<close>

lemma pipeline_in_progress:
  "map sv_icon (pipeline_view (Some ''research'')) = [''active'', ''pending'', ''pending'', ''pending'']"
  "map sv_icon (pipeline_view (Some ''prompt_crafting'')) = [''done'', ''active'', ''pending'', ''pending'']"
  "map sv_icon (pipeline_view (Some ''generating'')) = [''done'', ''done'', ''active'', ''pending'']"
  "map sv_icon (pipeline_view (Some ''evaluating'')) = [''done'', ''done'', ''done'', ''active'']"
  "map sv_icon (pipeline_view (Some ''complete'')) = [''done'', ''done'', ''done'', ''done'']"
  by (simp_all add: pipeline_defs)

text \<open>
  No stage key is \<^verbatim>\<open>failed\<close>, so the index of a failed job is \<open>-1\<close> and the branch that
  would mark a stage \<^verbatim>\<open>failed\<close> is never taken, whatever the stage.
\<close>

lemma stage_cell_not_failed:
  "currentStage \<noteq> Some ''failed'' \<Longrightarrow> sv_icon (stage_cell currentStage idx p) \<noteq> ''failed''"
  by (simp add: stage_cell_def Let_def)

lemma pipeline_never_failed: "''failed'' \<notin> sv_icon ` set (pipeline_view st)"
proof (cases "st = Some ''failed''")
  case True
  then show ?thesis by (simp add: pipeline_defs)
next
  case False
  have cell: "sv_icon (stage_cell st idx p) \<noteq> ''failed''" for idx p
    using False by (rule stage_cell_not_failed)
  show ?thesis
  proof
    assume "''failed'' \<in> sv_icon ` set (pipeline_view st)"
    then obtain c where c: "c \<in> set (pipeline_view st)" "sv_icon c = ''failed''"
      by force
    from c(1) obtain idx p where "c = stage_cell st idx p"
      unfolding pipeline_view_def Let_def by force
    with cell c(2) show False by blast
  qed
qed

text \<open>
  Claim C5 (the part on a failed job). The claim: when the job has failed, the stage at
  the last known index is marked \<^verbatim>\<open>failed\<close> and the later ones stay \<^verbatim>\<open>pending\<close>. The
  code, at a job that started, reached \<^verbatim>\<open>generating\<close> and then failed: all four stages
  are marked \<^verbatim>\<open>pending\<close>, in the gallery dashboard and in the earlier one.
\<close>

theorem failed_job_pipeline_all_pending:
  "map sv_icon (stages_html (handle_all
      [envelope ''job_started'' empty_data,
       envelope ''stage_changed'' (stage_data ''generating''),
       envelope ''job_failed'' empty_data] init_state))
     = [''pending'', ''pending'', ''pending'', ''pending''] \<and>
   map sv_icon (stages_html1 (snd (handleEvent1 (envelope ''job_failed'' empty_data)
      (snd (handleEvent1 (envelope ''stage_changed'' (stage_data ''generating''))
         (snd (handleEvent1 (envelope ''job_started'' empty_data) init_state1)))))))
     = [''pending'', ''pending'', ''pending'', ''pending'']"
proof -
  have failed: "map sv_icon (pipeline_view (Some ''failed''))
      = [''pending'', ''pending'', ''pending'', ''pending'']"
    by (simp add: pipeline_defs)
  have v2: "stages_html (handle_all
      [envelope ''job_started'' empty_data,
       envelope ''stage_changed'' (stage_data ''generating''),
       envelope ''job_failed'' empty_data] init_state) = pipeline_view (Some ''failed'')"
    by (simp add: handleEvent_stages_html envelope_def)
  have v1: "stages_html1 (snd (handleEvent1 (envelope ''job_failed'' empty_data) s))
      = pipeline_view (Some ''failed'')" for s
    by (simp add: handleEvent1_def track_job_def dispatch1_def put_job_def renderPipeline1_def
        addAgentLogEntry_def renderAgentLog1_def envelope_def Let_def split: option.splits)
  show ?thesis
    by (simp only: v1 v2 failed)
qed

section \<open>The detail cache\<close>

text \<open>
  The events \<^verbatim>\<open>image_generated\<close>, \<^verbatim>\<open>variant_scored\<close>, \<^verbatim>\<open>image_refined\<close> and
  \<^verbatim>\<open>job_completed\<close> remove the cache entry of their job.
\<close>

lemma invalidating_events:
  assumes "ev_type ev \<in> {''image_generated'', ''variant_scored'', ''image_refined'',
                          ''job_completed''}"
  shows "jobDetailCache (snd (handleEvent ev s)) (ev_job_id ev) = None"
  using assms by (simp add: handleEvent_jobDetailCache)

text \<open>With no cache entry, opening the card of a job of the catalog sends the request.\<close>

lemma expand_uncached_fetches:
  assumes "jobDetailCache s J = None" "J \<in> job_id ` set (jobList s)" "J \<noteq> []"
    "expandedJobId s \<noteq> Some J"
  shows "requests (toggleJob J s) = requests s @ [GetDetail J]"
  using assms by (simp add: requests_toggleJob)

text \<open>A \<^verbatim>\<open>job_failed\<close> event leaves the whole cache as it is.\<close>

lemma job_failed_leaves_cache:
  "ev_type ev = ''job_failed'' \<Longrightarrow> jobDetailCache (snd (handleEvent ev s)) = jobDetailCache s"
  by (simp add: handleEvent_jobDetailCache)

text \<open>
  Claim C1 (the case \<^verbatim>\<open>job_failed\<close>). The claim: after a \<^verbatim>\<open>job_failed\<close> event the cache
  entry of the job is gone and the next access to its detail refetches it. The code, at
  a job whose detail was fetched while it was \<^verbatim>\<open>generating\<close>: after \<^verbatim>\<open>job_failed\<close> the
  entry is still the one fetched then, and opening the card again sends no request.
\<close>

theorem job_failed_keeps_cache_entry:
  "jobDetailCache (snd (handleEvent (envelope ''job_failed'' empty_data) viewed)) ''abc123''
     = Some (detail_of ''generating'') \<and>
   requests (toggleJob ''abc123'' (snd (handleEvent (envelope ''job_failed'' empty_data) viewed)))
     = requests viewed"
  by (simp add: handleEvent_jobDetailCache handleEvent_jobList requests_toggleJob viewed_fields
      started_fields envelope_def handleEvent_def Let_def simple_defs requests_renderGallery)

section \<open>The catalog under push events\<close>

lemma map_job_id_set_stage [simp]: "map job_id (set_stage J st l) = map job_id l"
  by (induction l) auto

lemma length_set_stage [simp]: "length (set_stage J st l) = length l"
  by (induction l) auto

lemma other_fields_set_stage: "map other_fields (set_stage J st l) = map other_fields l"
  by (induction l) (auto simp: other_fields_def)

lemma set_stage_other_entries:
  "i < length l \<Longrightarrow> job_id (l ! i) \<noteq> J \<Longrightarrow> set_stage J st l ! i = l ! i"
proof (induction l arbitrary: i)
  case Nil
  then show ?case by simp
next
  case (Cons j js)
  then show ?case by (cases i) auto
qed

lemma find_set_stage:
  "find (\<lambda>j. job_id j = K) (set_stage J st l) =
     (if K = J then map_option (\<lambda>j. j\<lparr>stage := st\<rparr>) (find (\<lambda>j. job_id j = J) l)
      else find (\<lambda>j. job_id j = K) l)"
  by (induction l) auto

lemma stage_of_set_stage:
  "stage_of K (set_stage J st l) =
     (if K = J then map_option (\<lambda>_. st) (stage_of J l) else stage_of K l)"
  by (simp add: stage_of_def find_set_stage option.map_comp comp_def)

lemma set_stage_absent: "find (\<lambda>j. job_id j = J) l = None \<Longrightarrow> set_stage J st l = l"
  by (induction l) (auto split: if_splits)

lemma listed_fields: "jobList listed = [summary_of ''queued'']"
  by (simp add: listed_def jobs_listed_def loadJobs_def issue_def init_state_def Let_def)

lemma two_jobs_fields:
  "jobList two_jobs =
     [summary_of ''generating'', (summary_of ''complete'')\<lparr>job_id := ''def456''\<rparr>]"
  by (simp add: two_jobs_def jobs_listed_def loadJobs_def issue_def init_state_def Let_def)

text \<open>
  Claim C10. A \<^verbatim>\<open>stage_changed\<close>, \<^verbatim>\<open>job_completed\<close> or \<^verbatim>\<open>job_failed\<close> event for a job
  changes nothing in the catalog of the gallery dashboard but the stage of that job's
  entry: the catalog keeps its length and order, every entry keeps its job id, prompt,
  timestamps, image count and winner fields, and the entries of the other jobs are the
  same as before, stage included. (This holds also when the handler ends by an exception
  for want of a \<^verbatim>\<open>data\<close> object.)
\<close>

theorem stage_events_touch_only_stage:
  assumes "ev_type ev \<in> {''stage_changed'', ''job_completed'', ''job_failed''}"
  shows "map other_fields (jobList (snd (handleEvent ev s))) = map other_fields (jobList s) \<and>
         (\<forall>i < length (jobList s). job_id (jobList s ! i) \<noteq> ev_job_id ev \<longrightarrow>
             jobList (snd (handleEvent ev s)) ! i = jobList s ! i)"
  using assms
  by (auto simp: handleEvent_jobList other_fields_set_stage set_stage_other_entries
      split: option.splits)

theorem stage_events_touch_only_stage_witness:
  "map other_fields (jobList (snd (handleEvent (envelope ''job_failed'' empty_data) two_jobs)))
     = map other_fields (jobList two_jobs) \<and>
   jobList (snd (handleEvent (envelope ''job_failed'' empty_data) two_jobs)) ! 1
     = jobList two_jobs ! 1 \<and>
   stage_of ''abc123'' (jobList (snd (handleEvent (envelope ''job_failed'' empty_data) two_jobs)))
     = Some (Some ''failed'')"
proof -
  have ty: "ev_type (envelope ''job_failed'' empty_data)
      \<in> {''stage_changed'', ''job_completed'', ''job_failed''}"
    by (simp add: envelope_def)
  have other: "1 < length (jobList two_jobs) \<and>
      job_id (jobList two_jobs ! 1) \<noteq> ev_job_id (envelope ''job_failed'' empty_data)"
    by (simp add: two_jobs_fields summary_of_def envelope_def)
  have st: "stage_of ''abc123''
      (jobList (snd (handleEvent (envelope ''job_failed'' empty_data) two_jobs)))
     = Some (Some ''failed'')"
    by (simp add: handleEvent_jobList envelope_def two_jobs_fields summary_of_def stage_of_def)
  from stage_events_touch_only_stage [OF ty, of two_jobs] other st show ?thesis by blast
qed

text \<open>
  Claim C2, as stated: after a \<^verbatim>\<open>job_started\<close> event the summary of the job has the
  stage \<^verbatim>\<open>research\<close>, whatever it was before. In the gallery dashboard it fails for a
  job that the catalog already lists: the entry, loaded as \<^verbatim>\<open>queued\<close>, is still
  \<^verbatim>\<open>queued\<close> after the event.
\<close>

theorem job_started_keeps_listed_stage:
  "stage_of ''abc123'' (jobList (snd (handleEvent (envelope ''job_started'' empty_data) listed)))
     = Some (Some ''queued'') \<and>
   stage_of ''abc123'' (jobList (snd (handleEvent (envelope ''job_started'' empty_data) listed)))
     \<noteq> Some (Some ''research'')"
  by (simp add: handleEvent_jobList listed_fields envelope_def summary_of_def stage_of_def)

text \<open>
  Claim C2, amended. After a \<^verbatim>\<open>job_started\<close> event (with a \<^verbatim>\<open>data\<close> object) the catalog
  of the gallery dashboard has a summary of the job: a job that was absent gets a new
  first entry with the stage \<^verbatim>\<open>research\<close>, the prompt of the event and no images; with
  the job already listed the catalog is left as it was (the guard ``if not already
  there''), prior stage included. Either way the job becomes the tracked one and the
  pipeline view shows \<^verbatim>\<open>research\<close>. In the earlier dashboard the job is in the store
  with the stage \<^verbatim>\<open>research\<close> whatever its prior state.
\<close>

theorem job_started_inserts_if_absent:
  assumes "ev_type ev = ''job_started''" and "ev_data ev = Some d"
  shows "jobList (snd (handleEvent ev s)) =
           (if find (\<lambda>j. job_id j = ev_job_id ev) (jobList s) = None
            then \<lparr>job_id = ev_job_id ev, prompt = or_else (d_prompt d) [],
                  stage = Some ''research'', created_at = ev_timestamp ev,
                  completed_at = None, image_count = 0, winner = None, winner_path = None\<rparr>
                 # jobList s
            else jobList s) \<and>
         find (\<lambda>j. job_id j = ev_job_id ev) (jobList (snd (handleEvent ev s))) \<noteq> None \<and>
         currentJobId (snd (handleEvent ev s)) = Some (ev_job_id ev) \<and>
         stages_html (snd (handleEvent ev s)) = pipeline_view (Some ''research'') \<and>
         (\<exists>job. jobs (snd (handleEvent1 ev s1)) (ev_job_id ev) = Some job \<and>
                j_stage job = Some ''research'')"
proof -
  have a: "jobList (snd (handleEvent ev s)) =
           (if find (\<lambda>j. job_id j = ev_job_id ev) (jobList s) = None
            then \<lparr>job_id = ev_job_id ev, prompt = or_else (d_prompt d) [],
                  stage = Some ''research'', created_at = ev_timestamp ev,
                  completed_at = None, image_count = 0, winner = None, winner_path = None\<rparr>
                 # jobList s
            else jobList s)"
    using assms by (auto simp: handleEvent_jobList split: option.splits)
  have b: "find (\<lambda>j. job_id j = ev_job_id ev) (jobList (snd (handleEvent ev s))) \<noteq> None"
    by (simp add: a)
  have c: "currentJobId (snd (handleEvent ev s)) = Some (ev_job_id ev)"
    using assms by (simp add: handleEvent_def Let_def simple_defs)
  have d: "stages_html (snd (handleEvent ev s)) = pipeline_view (Some ''research'')"
    using assms by (simp add: handleEvent_stages_html)
  have e: "\<exists>job. jobs (snd (handleEvent1 ev s1)) (ev_job_id ev) = Some job \<and>
                j_stage job = Some ''research''"
    using assms
    by (auto simp: handleEvent1_def track_job_def dispatch1_def put_job_def renderPipeline1_def
        clearImages_def Let_def split: option.splits)
  show ?thesis using a b c d e by blast
qed

theorem job_started_inserts_if_absent_witness:
  "jobList (snd (handleEvent (envelope ''job_started'' empty_data) init_state)) =
     [\<lparr>job_id = ''abc123'', prompt = [], stage = Some ''research'',
       created_at = ''2026-01-01T10:00:00Z'', completed_at = None, image_count = 0,
       winner = None, winner_path = None\<rparr>] \<and>
   jobList (snd (handleEvent (envelope ''job_started'' empty_data) listed)) = jobList listed \<and>
   (\<exists>job. jobs (snd (handleEvent1 (envelope ''job_started'' empty_data) init_state1)) ''abc123''
            = Some job \<and> j_stage job = Some ''research'')"
proof -
  have ty: "ev_type (envelope ''job_started'' empty_data) = ''job_started''"
    and da: "ev_data (envelope ''job_started'' empty_data) = Some empty_data"
    by (simp_all add: envelope_def)
  have absent: "find (\<lambda>j. job_id j = ev_job_id (envelope ''job_started'' empty_data))
      (jobList init_state) = None"
    by (simp add: init_state_def)
  have present: "find (\<lambda>j. job_id j = ev_job_id (envelope ''job_started'' empty_data))
      (jobList listed) \<noteq> None"
    by (simp add: listed_fields summary_of_def envelope_def)
  have vals: "ev_job_id (envelope ''job_started'' empty_data) = ''abc123''"
    "ev_timestamp (envelope ''job_started'' empty_data) = ''2026-01-01T10:00:00Z''"
    "or_else (d_prompt empty_data) [] = []" "jobList init_state = []"
    by (simp_all add: envelope_def empty_data_def init_state_def)
  from job_started_inserts_if_absent [OF ty da, of init_state init_state1]
    job_started_inserts_if_absent [OF ty da, of listed init_state1]
    absent present vals
  show ?thesis by simp
qed

lemma stage_of_Cons:
  "stage_of J (j # l) = (if job_id j = J then Some (stage j) else stage_of J l)"
  by (simp add: stage_of_def)

lemma stage_of_None_iff: "stage_of J l = None \<longleftrightarrow> find (\<lambda>j. job_id j = J) l = None"
  by (simp add: stage_of_def)

lemma stage_of_other_event:
  assumes "\<not> (ev_job_id e = J \<and> ev_type e \<in> {''stage_changed'', ''job_completed'', ''job_failed''})"
    and "stage_of J (jobList s) \<noteq> None"
  shows "stage_of J (jobList (snd (handleEvent e s))) = stage_of J (jobList s)"
proof (cases "ev_job_id e = J")
  case True
  with assms show ?thesis
    by (auto simp: handleEvent_jobList stage_of_None_iff split: option.splits)
next
  case False
  then show ?thesis
    by (auto simp: handleEvent_jobList stage_of_set_stage stage_of_Cons split: option.splits)
qed

lemma stage_of_job_failed:
  assumes "ev_type e = ''job_failed''" and "stage_of (ev_job_id e) (jobList s) \<noteq> None"
  shows "stage_of (ev_job_id e) (jobList (snd (handleEvent e s))) = Some (Some ''failed'')"
  using assms by (auto simp: handleEvent_jobList stage_of_set_stage)

lemma failed_kept_by_event:
  assumes "stage_of J (jobList s) = Some (Some ''failed'')"
    and "\<not> (ev_job_id e = J \<and> ev_type e \<in> {''stage_changed'', ''job_completed''})"
  shows "stage_of J (jobList (snd (handleEvent e s))) = Some (Some ''failed'')"
proof (cases "ev_job_id e = J \<and> ev_type e = ''job_failed''")
  case True
  with assms(1) show ?thesis
    using stage_of_job_failed [of e s] by auto
next
  case False
  with assms have "stage_of J (jobList (snd (handleEvent e s))) = stage_of J (jobList s)"
    by (intro stage_of_other_event) auto
  with assms(1) show ?thesis by simp
qed

lemma failed_kept_by_events:
  assumes "stage_of J (jobList s) = Some (Some ''failed'')"
    and "\<forall>e \<in> set evs. \<not> (ev_job_id e = J \<and> ev_type e \<in> {''stage_changed'', ''job_completed''})"
  shows "stage_of J (jobList (handle_all evs s)) = Some (Some ''failed'')"
  using assms
proof (induction evs arbitrary: s)
  case Nil
  then show ?case by simp
next
  case (Cons e evs)
  from Cons.prems have "stage_of J (jobList (snd (handleEvent e s))) = Some (Some ''failed'')"
    by (intro failed_kept_by_event) auto
  with Cons show ?case by simp
qed

text \<open>
  Claim C4, as stated: once \<^verbatim>\<open>job_failed\<close> was handled for a job, no later event changes
  its stage. It fails: a \<^verbatim>\<open>stage_changed\<close> event that arrives after the failure sets the
  stage it carries.
\<close>

theorem stage_changed_after_job_failed:
  "stage_of ''abc123'' (jobList (snd (handleEvent (envelope ''job_failed'' empty_data) started)))
     = Some (Some ''failed'') \<and>
   stage_of ''abc123'' (jobList (handle_all
      [envelope ''job_failed'' empty_data, envelope ''stage_changed'' (stage_data ''generating'')]
      started)) = Some (Some ''generating'') \<and>
   stage_of ''abc123'' (jobList (handle_all
      [envelope ''job_failed'' empty_data, envelope ''stage_changed'' (stage_data ''generating'')]
      started)) \<noteq> Some (Some ''failed'')"
  by (simp add: handleEvent_jobList started_fields envelope_def stage_data_def empty_data_def
      stage_of_def)

text \<open>
  Claim C4, amended. A \<^verbatim>\<open>job_failed\<close> event for a job of the catalog sets its stage to
  \<^verbatim>\<open>failed\<close>, and the stage stays \<^verbatim>\<open>failed\<close> under every later push event that is not
  a \<^verbatim>\<open>stage_changed\<close> or \<^verbatim>\<open>job_completed\<close> event for that job; the handler has no guard
  for a failed job, and a later \<^verbatim>\<open>stage_changed\<close> for the job sets the stage it carries.
\<close>

theorem job_failed_holds_until_stage_event:
  assumes "ev_type ev = ''job_failed''" and "ev_job_id ev = J"
    and "find (\<lambda>j. job_id j = J) (jobList s) \<noteq> None"
    and "\<forall>e \<in> set evs. \<not> (ev_job_id e = J \<and> ev_type e \<in> {''stage_changed'', ''job_completed''})"
  shows "stage_of J (jobList (snd (handleEvent ev s))) = Some (Some ''failed'') \<and>
         stage_of J (jobList (handle_all evs (snd (handleEvent ev s)))) = Some (Some ''failed'') \<and>
         stage_of J (jobList (snd (handleEvent
            \<lparr>ev_type = ''stage_changed'', ev_job_id = J, ev_data = Some d, ev_timestamp = t\<rparr>
            (handle_all evs (snd (handleEvent ev s)))))) = Some (d_stage d)"
proof -
  have a: "stage_of J (jobList (snd (handleEvent ev s))) = Some (Some ''failed'')"
    using assms(1-3) stage_of_job_failed [of ev s] by (simp add: stage_of_None_iff)
  have b: "stage_of J (jobList (handle_all evs (snd (handleEvent ev s)))) = Some (Some ''failed'')"
    using a assms(4) by (rule failed_kept_by_events)
  have c: "stage_of J (jobList (snd (handleEvent
            \<lparr>ev_type = ''stage_changed'', ev_job_id = J, ev_data = Some d, ev_timestamp = t\<rparr>
            (handle_all evs (snd (handleEvent ev s)))))) = Some (d_stage d)"
    using b by (simp add: handleEvent_jobList stage_of_set_stage)
  show ?thesis using a b c by blast
qed

theorem job_failed_holds_until_stage_event_witness:
  "stage_of ''abc123'' (jobList (handle_all
      [envelope ''variant_scored'' empty_data, envelope ''job_started'' empty_data]
      (snd (handleEvent (envelope ''job_failed'' empty_data) started)))) = Some (Some ''failed'')"
proof -
  have h: "ev_type (envelope ''job_failed'' empty_data) = ''job_failed''"
    "ev_job_id (envelope ''job_failed'' empty_data) = ''abc123''"
    "find (\<lambda>j. job_id j = ''abc123'') (jobList started) \<noteq> None"
    "\<forall>e \<in> set [envelope ''variant_scored'' empty_data, envelope ''job_started'' empty_data].
       \<not> (ev_job_id e = ''abc123'' \<and> ev_type e \<in> {''stage_changed'', ''job_completed''})"
    by (simp_all add: envelope_def started_fields)
  from job_failed_holds_until_stage_event [OF h] show ?thesis by blast
qed

section \<open>Events for a job id the store does not know\<close>

lemma handleEvent_no_throw: "ev_data ev \<noteq> None \<Longrightarrow> fst (handleEvent ev s) = None"
  by (auto simp: handleEvent_def Let_def)

text \<open>
  Claim C6, as stated: an event for a job id that is not in the store creates a summary
  with default fields before its own effect. In the gallery dashboard it fails: a
  \<^verbatim>\<open>stage_changed\<close> event for an unknown job leaves the catalog empty.
\<close>

theorem stage_changed_unknown_job_creates_nothing:
  "jobList (snd (handleEvent (envelope ''stage_changed'' (stage_data ''generating'')) init_state)) = [] \<and>
   find (\<lambda>j. job_id j = ''abc123'')
     (jobList (snd (handleEvent (envelope ''stage_changed'' (stage_data ''generating'')) init_state))) = None"
  by (simp add: handleEvent_jobList envelope_def init_state_def)

text \<open>
  Claim C6, amended. For an event with a \<^verbatim>\<open>data\<close> object: the handler of the gallery
  dashboard never throws, and for a job id that is not in its catalog it changes nothing
  in the catalog unless the event is \<^verbatim>\<open>job_started\<close> (which inserts the summary). The
  handler of the earlier dashboard, for a job id that is not in its store, first stores
  a job with the stage \<^verbatim>\<open>queued\<close>, the prompt of the event (or the empty string) and
  empty lists, and then applies the effect of the event type to it; it throws only for
  an \<^verbatim>\<open>image_generated\<close> event that carries no \<^verbatim>\<open>file_path\<close>; the job is in the store
  afterwards.
\<close>

theorem unknown_job_id_events:
  assumes "ev_data ev = Some d"
  shows "fst (handleEvent ev s) = None \<and>
         (find (\<lambda>j. job_id j = ev_job_id ev) (jobList s) = None \<and> ev_type ev \<noteq> ''job_started''
            \<longrightarrow> jobList (snd (handleEvent ev s)) = jobList s) \<and>
         (jobs s1 (ev_job_id ev) = None \<longrightarrow>
            handleEvent1 ev s1 =
              dispatch1 ev
                \<lparr>j_id = ev_job_id ev, j_stage = Some ''queued'', j_prompt = or_else (d_prompt d) [],
                 j_images = [], j_scores = [], j_agentLog = []\<rparr>
                (put_job (ev_job_id ev)
                   \<lparr>j_id = ev_job_id ev, j_stage = Some ''queued'',
                    j_prompt = or_else (d_prompt d) [],
                    j_images = [], j_scores = [], j_agentLog = []\<rparr> s1) \<and>
            fst (handleEvent1 ev s1) =
              (if ev_type ev = ''image_generated'' \<and> d_file_path d = None
               then Some TypeError else None)) \<and>
         jobs (snd (handleEvent1 ev s1)) (ev_job_id ev) \<noteq> None"
proof -
  let ?new = "\<lparr>j_id = ev_job_id ev, j_stage = Some ''queued'', j_prompt = or_else (d_prompt d) [],
                 j_images = [], j_scores = [], j_agentLog = []\<rparr>"
  have a: "fst (handleEvent ev s) = None"
    using assms by (simp add: handleEvent_no_throw)
  have b: "jobList (snd (handleEvent ev s)) = jobList s"
    if "find (\<lambda>j. job_id j = ev_job_id ev) (jobList s) = None" "ev_type ev \<noteq> ''job_started''"
    using that by (simp add: handleEvent_jobList set_stage_absent split: option.splits)
  have c: "handleEvent1 ev s1 = dispatch1 ev ?new (put_job (ev_job_id ev) ?new s1)"
    if "jobs s1 (ev_job_id ev) = None"
    using that assms by (simp add: handleEvent1_def track_job_def put_job_def)
  have d: "fst (dispatch1 ev ?new s') =
      (if ev_type ev = ''image_generated'' \<and> d_file_path d = None then Some TypeError else None)"
    for s'
    using assms
    by (simp add: dispatch1_def Let_def renderImages_def image_renders_def)
  have e: "jobs (snd (dispatch1 ev job s')) (ev_job_id ev) \<noteq> None"
    if "jobs s' (ev_job_id ev) \<noteq> None" for job s'
    using that assms
    by (simp add: dispatch1_def Let_def put_job_def renderPipeline1_def clearImages_def
        renderAgentLog1_def addAgentLogEntry_def)
  have f: "jobs (snd (handleEvent1 ev s1)) (ev_job_id ev) \<noteq> None"
  proof (cases "jobs s1 (ev_job_id ev)")
    case None
    then show ?thesis using c e [of "put_job (ev_job_id ev) ?new s1" ?new]
      by (simp add: put_job_def)
  next
    case (Some job)
    then show ?thesis using e [of s1 job]
      by (simp add: handleEvent1_def track_job_def)
  qed
  show ?thesis using a b c d f by simp
qed

theorem unknown_job_id_events_witness:
  "fst (handleEvent (envelope ''stage_changed'' (stage_data ''generating'')) init_state) = None \<and>
   jobList (snd (handleEvent (envelope ''stage_changed'' (stage_data ''generating'')) init_state)) = [] \<and>
   fst (handleEvent1 (envelope ''stage_changed'' (stage_data ''generating'')) init_state1) = None \<and>
   jobs (snd (handleEvent1 (envelope ''stage_changed'' (stage_data ''generating'')) init_state1))
     ''abc123'' \<noteq> None"
proof -
  let ?ev = "envelope ''stage_changed'' (stage_data ''generating'')"
  have h: "ev_data ?ev = Some (stage_data ''generating'')"
    by (simp add: envelope_def)
  have v: "find (\<lambda>j. job_id j = ev_job_id ?ev) (jobList init_state) = None"
    "ev_type ?ev \<noteq> ''job_started''" "ev_type ?ev \<noteq> ''image_generated''"
    "jobs init_state1 (ev_job_id ?ev) = None"
    by (simp_all add: envelope_def init_state_def init_state1_def)
  have w: "ev_job_id ?ev = ''abc123''" "jobList init_state = []"
    by (simp_all add: envelope_def init_state_def)
  note t = unknown_job_id_events [OF h, of init_state init_state1]
  from t have 1: "fst (handleEvent ?ev init_state) = None"
    by blast
  from t v have 2: "jobList (snd (handleEvent ?ev init_state)) = jobList init_state"
    by blast
  from t v have 3: "fst (handleEvent1 ?ev init_state1) =
      (if ev_type ?ev = ''image_generated'' \<and> d_file_path (stage_data ''generating'') = None
       then Some TypeError else None)"
    by blast
  from t have 4: "jobs (snd (handleEvent1 ?ev init_state1)) (ev_job_id ?ev) \<noteq> None"
    by blast
  from 1 2 3 4 v(3) w show ?thesis by simp
qed

section \<open>Detail responses out of order\<close>

lemma racing_fields:
  "requests racing = [GetDetail ''abc123'', GetDetail ''abc123'']"
  "inflight racing = [0, 1]"
  "jobDetailCache racing ''abc123'' = None"
  by (simp_all add: racing_def handleEvent_def Let_def simple_defs envelope_def
      requests_fetchAndRenderDetail inflight_fetchAndRenderDetail
      requests_toggleJob inflight_toggleJob started_fields)

text \<open>
  Claim C3, as stated: when the fetch issued first completes after the fetch issued
  later, its response is discarded. It fails: with the card open and an
  \<^verbatim>\<open>image_refined\<close> event forcing a second fetch, two requests for the job are under
  way; the response of the second arrives first and is cached, then the response of the
  first arrives and replaces it.
\<close>

theorem stale_detail_response_overwrites:
  "requests racing = [GetDetail ''abc123'', GetDetail ''abc123''] \<and>
   jobDetailCache (detail_response 1 (Some (detail_of ''complete'')) racing) ''abc123''
     = Some (detail_of ''complete'') \<and>
   jobDetailCache (detail_response 0 (Some (detail_of ''generating''))
      (detail_response 1 (Some (detail_of ''complete'')) racing)) ''abc123''
     = Some (detail_of ''generating'') \<and>
   detail_of ''generating'' \<noteq> detail_of ''complete''"
  by (simp add: jobDetailCache_detail_response inflight_detail_response racing_fields detail_of_def)

text \<open>
  Claim C3, amended. Of two detail fetches under way for one job id, the response that
  arrives last is the one the cache holds, whichever fetch was issued first; a failed
  response leaves the cached data of the other in place.
\<close>

theorem last_detail_response_wins:
  assumes "i \<in> set (inflight s)" and "k \<in> set (inflight s)" and "i \<noteq> k"
    and "i < length (requests s)" and "k < length (requests s)"
    and "requests s ! i = GetDetail J" and "requests s ! k = GetDetail J"
  shows "jobDetailCache (detail_response k (Some d2) s) J = Some d2 \<and>
         jobDetailCache (detail_response i (Some d1) (detail_response k (Some d2) s)) J = Some d1 \<and>
         jobDetailCache (detail_response i None (detail_response k (Some d2) s)) J = Some d2"
  using assms by (simp add: jobDetailCache_detail_response inflight_detail_response)

theorem last_detail_response_wins_witness:
  "jobDetailCache (detail_response 0 (Some (detail_of ''generating''))
      (detail_response 1 (Some (detail_of ''complete'')) racing)) ''abc123''
     = Some (detail_of ''generating'') \<and>
   jobDetailCache (detail_response 1 (Some (detail_of ''complete''))
      (detail_response 0 (Some (detail_of ''generating'')) racing)) ''abc123''
     = Some (detail_of ''complete'')"
proof -
  have h: "0 \<in> set (inflight racing)" "1 \<in> set (inflight racing)"
    "0 < length (requests racing)" "1 < length (requests racing)"
    "requests racing ! 0 = GetDetail ''abc123''" "requests racing ! 1 = GetDetail ''abc123''"
    by (simp_all add: racing_fields)
  have ne: "(0::nat) \<noteq> 1" "(1::nat) \<noteq> 0" by simp_all
  from last_detail_response_wins [OF h(1) h(2) ne(1) h(3) h(4) h(5) h(6)] last_detail_response_wins [OF h(2) h(1) ne(2) h(4) h(3) h(6) h(5)]
  show ?thesis by blast
qed

section \<open>The connection under messages\<close>

lemma handleEvent_conn:
  assumes "handleEvent ev s = (e, s')"
  shows "ws s' = ws s" "close_calls s' = close_calls s" "timers s' = timers s" "statusDot s' = statusDot s"
    "statusText s' = statusText s" "next_timer s' = next_timer s" "next_socket s' = next_socket s"
  using handleEvent_frame [of ev s] assms by simp_all

lemma ws_onmessage_conn:
  "ws (ws_onmessage parse p s) = ws s"
  "close_calls (ws_onmessage parse p s) = close_calls s"
  "timers (ws_onmessage parse p s) = timers s"
  "statusDot (ws_onmessage parse p s) = statusDot s"
  "statusText (ws_onmessage parse p s) = statusText s"
  by (auto simp: ws_onmessage_def handleEvent_conn split: option.splits prod.splits)

text \<open>
  An exception of the handler is caught and logged like a parse failure; what the
  handler did before it stays done. So a \<^verbatim>\<open>job_started\<close> envelope without \<^verbatim>\<open>data\<close>, for
  a job that is not in the catalog, switches the tracked job and inserts nothing.
\<close>

lemma handler_exception_logged:
  assumes "parse p = Some ev" and "handleEvent ev s = (Some e, s')"
  shows "ws_onmessage parse p s = s'\<lparr>console := console s' @ [''WS parse error:'']\<rparr>"
  using assms by (simp add: ws_onmessage_def)

lemma job_started_without_data:
  "fst (handleEvent \<lparr>ev_type = ''job_started'', ev_job_id = J, ev_data = None, ev_timestamp = t\<rparr>
          init_state) = Some TypeError \<and>
   currentJobId (snd (handleEvent
      \<lparr>ev_type = ''job_started'', ev_job_id = J, ev_data = None, ev_timestamp = t\<rparr>
      init_state)) = Some J \<and>
   jobList (snd (handleEvent
      \<lparr>ev_type = ''job_started'', ev_job_id = J, ev_data = None, ev_timestamp = t\<rparr>
      init_state)) = []"
  by (simp add: handleEvent_def Let_def simple_defs init_state_def)

section \<open>The debounced search\<close>

lemma loadJobs_query: "loadJobs s = issue (query (searchInput s) (sortSelect s)) s"
  by (simp add: loadJobs_def query_def Let_def)

lemma query_cat: "query ''cat '' [] = GetJobs (Some ''cat'') None"
  by code_simp

lemma query_sort: "query [] ''newest'' = GetJobs None (Some ''newest'')"
  by code_simp

lemma query_a: "query ''a'' [] = GetJobs (Some ''a'') None"
  by code_simp

lemma query_ab: "query ''ab'' [] = GetJobs (Some ''ab'') None"
  by code_simp

lemma same_id_same_timer:
  assumes "distinct (map fst ts)" and "x \<in> set ts" and "y \<in> set ts" and "fst y = fst x"
  shows "y = x"
  using assms by (meson distinct_map inj_onD)

lemma find_unique:
  assumes "distinct (map fst ts)" and "x \<in> set ts"
  shows "find (\<lambda>y. fst y = fst x) ts = Some x"
  using assms
proof (induction ts)
  case Nil
  then show ?case by simp
next
  case (Cons a ts)
  show ?case
  proof (cases "fst a = fst x")
    case True
    with Cons.prems have "a = x"
      by (intro same_id_same_timer [of "a # ts" x a]) auto
    with True show ?thesis by simp
  next
    case False
    with Cons show ?thesis by auto
  qed
qed

lemma fire_effect:
  assumes "distinct (map fst (timers s))" and "x \<in> set (timers s)"
  shows "fire (fst x) s =
     run_callback (snd (snd x)) (s\<lparr>timers := filter (\<lambda>y. fst y \<noteq> fst x) (timers s)\<rparr>)"
  using find_unique [OF assms] by (simp add: fire_def)

lemma earliest_None: "earliest xs = None \<longleftrightarrow> xs = []"
  by (cases xs) (auto split: option.splits)

lemma next_due_None: "next_due t ts = None \<Longrightarrow> x \<in> set ts \<Longrightarrow> t < fst (snd x)"
  by (auto simp: next_due_def earliest_None filter_empty_conv)

lemma pending_after_other:
  assumes "distinct (map fst ts)" and "x \<in> set ts" and "snd (snd x) \<noteq> LoadJobs"
  shows "filter (\<lambda>y. snd (snd y) = LoadJobs) (filter (\<lambda>y. fst y \<noteq> fst x) ts)
         = filter (\<lambda>y. snd (snd y) = LoadJobs) ts"
proof -
  have h: "fst y \<noteq> fst x" if "y \<in> set ts" "snd (snd y) = LoadJobs" for y
    using same_id_same_timer [OF assms(1,2) that(1)] that(2) assms(3) by auto
  show ?thesis
    unfolding filter_filter by (rule filter_cong) (use h in auto)
qed

lemma fire_connect:
  assumes "distinct (map fst (timers s))" and "x \<in> set (timers s)" and "snd (snd x) = Connect"
  shows "requests (fire (fst x) s) = requests s"
    "pending_queries (fire (fst x) s) = pending_queries s"
    "searchInput (fire (fst x) s) = searchInput s"
    "sortSelect (fire (fst x) s) = sortSelect s"
    "searchDebounce (fire (fst x) s) = searchDebounce s"
    "next_timer (fire (fst x) s) = next_timer s"
    "timers (fire (fst x) s) = filter (\<lambda>y. fst y \<noteq> fst x) (timers s)"
  using assms pending_after_other [of "timers s" x]
  by (simp_all add: fire_effect run_callback_def connect_def pending_queries_def)

lemma fire_query:
  assumes "distinct (map fst (timers s))" and "x \<in> set (timers s)" and "snd (snd x) = LoadJobs"
  shows "requests (fire (fst x) s) = requests s @ [query (searchInput s) (sortSelect s)]"
    "timers (fire (fst x) s) = filter (\<lambda>y. fst y \<noteq> fst x) (timers s)"
  using assms
  by (simp_all add: fire_effect run_callback_def loadJobs_query issue_def)

lemma advance_quiet:
  assumes "distinct (map fst (timers s))"
    and "\<forall>x \<in> set (pending_queries s). t < fst (snd x)"
  shows "requests (advance t s) = requests s \<and>
         pending_queries (advance t s) = pending_queries s \<and>
         searchInput (advance t s) = searchInput s \<and>
         sortSelect (advance t s) = sortSelect s \<and>
         searchDebounce (advance t s) = searchDebounce s \<and>
         next_timer (advance t s) = next_timer s \<and>
         distinct (map fst (timers (advance t s))) \<and>
         set (timers (advance t s)) \<subseteq> set (timers s)"
  using assms
proof (induction t s rule: advance.induct)
  case (1 t s)
  show ?case
  proof (cases "next_due t (timers s)")
    case None
    with "1.prems" show ?thesis by (simp add: advance.simps [of t s])
  next
    case (Some x)
    then have x: "x \<in> set (timers s)" "fst (snd x) \<le> t"
      using next_due_mem by blast+
    with "1.prems"(2) have "x \<notin> set (pending_queries s)" by auto
    with x(1) have cb: "snd (snd x) = Connect"
      by (cases "snd (snd x)") (auto simp: pending_queries_def)
    note f = fire_connect [OF "1.prems"(1) x(1) cb]
    have d: "distinct (map fst (timers (fire (fst x) s)))"
      using "1.prems"(1) by (simp add: f(7) distinct_map_filter)
    have q: "\<forall>y \<in> set (pending_queries (fire (fst x) s)). t < fst (snd y)"
      using "1.prems"(2) by (simp add: f(2))
    from "1.IH" [OF Some d q] f show ?thesis
      by (auto simp: advance.simps [of t s] Some)
  qed
qed

lemma advance_fires_query:
  assumes "distinct (map fst (timers s))"
    and "pending_queries s = [(k, d, LoadJobs)]" and "d \<le> t"
  shows "requests (advance t s) = requests s @ [query (searchInput s) (sortSelect s)]"
  using assms
proof (induction t s rule: advance.induct)
  case (1 t s)
  have "(k, d, LoadJobs) \<in> set (pending_queries s)"
    by (simp add: "1.prems"(2))
  then have mem: "(k, d, LoadJobs) \<in> set (timers s)"
    by (simp add: pending_queries_def)
  show ?case
  proof (cases "next_due t (timers s)")
    case None
    from next_due_None [OF None mem] "1.prems"(3) show ?thesis by simp
  next
    case (Some x)
    then have x: "x \<in> set (timers s)" "fst (snd x) \<le> t"
      using next_due_mem by blast+
    show ?thesis
    proof (cases "snd (snd x)")
      case LoadJobs
      with x(1) have "x \<in> set (pending_queries s)"
        by (simp add: pending_queries_def)
      then have xk: "x = (k, d, LoadJobs)"
        by (simp add: "1.prems"(2))
      note f = fire_query [OF "1.prems"(1) x(1) LoadJobs]
      have d': "distinct (map fst (timers (fire (fst x) s)))"
        using "1.prems"(1) by (simp add: f(2) distinct_map_filter)
      have tm: "timers (fire (fst x) s) = filter (\<lambda>y. fst y \<noteq> k) (timers s)"
        using f(2) xk by simp
      have "pending_queries (fire (fst x) s) = filter (\<lambda>y. fst y \<noteq> k) (pending_queries s)"
        unfolding pending_queries_def tm filter_filter by (rule filter_cong) auto
      then have e: "pending_queries (fire (fst x) s) = []"
        by (simp add: "1.prems"(2))
      from advance_quiet [OF d', of t] e
      have "requests (advance t (fire (fst x) s)) = requests (fire (fst x) s)" by simp
      with f(1) show ?thesis by (simp add: advance.simps [of t s] Some)
    next
      case Connect
      note f = fire_connect [OF "1.prems"(1) x(1) Connect]
      have d': "distinct (map fst (timers (fire (fst x) s)))"
        using "1.prems"(1) by (simp add: f(7) distinct_map_filter)
      from "1.IH" [OF Some d' _ "1.prems"(3)] f "1.prems"(2)
      show ?thesis by (simp add: advance.simps [of t s] Some)
    qed
  qed
qed


lemma type_search_arms:
  assumes "timer_ids_fresh s"
    and "pending_queries s = [] \<or>
         (\<exists>k d. pending_queries s = [(k, d, LoadJobs)] \<and> searchDebounce s = Some k)"
  shows "armed t v (type_search v t s) \<and> requests (type_search v t s) = requests s \<and>
         sortSelect (type_search v t s) = sortSelect s"
proof -
  let ?kept = "case searchDebounce s of None \<Rightarrow> timers s
               | Some k \<Rightarrow> filter (\<lambda>x. fst x \<noteq> k) (timers s)"
  have ts: "type_search v t s =
      s\<lparr>searchInput := v, timers := ?kept @ [(next_timer s, t + 350, LoadJobs)],
        next_timer := Suc (next_timer s), searchDebounce := Some (next_timer s)\<rparr>"
    by (simp add: type_search_def on_search_input_def clearTimeout_def setTimeout_def Let_def
        split: option.splits)
  have sub: "set ?kept \<subseteq> set (timers s)"
    by (auto split: option.splits)
  have dist: "distinct (map fst ?kept)"
    using assms(1) by (auto simp: timer_ids_fresh_def distinct_map_filter split: option.splits)
  have below: "\<forall>x \<in> set ?kept. fst x < next_timer s"
    using assms(1) sub by (auto simp: timer_ids_fresh_def list_all_iff)
  have none: "filter (\<lambda>x. snd (snd x) = LoadJobs) ?kept = []"
  proof (cases "pending_queries s = []")
    case True
    then have "\<forall>x \<in> set (timers s). snd (snd x) \<noteq> LoadJobs"
      by (simp add: pending_queries_def filter_empty_conv)
    with sub show ?thesis by (auto simp: filter_empty_conv)
  next
    case False
    with assms(2) obtain k d where
      kd: "pending_queries s = [(k, d, LoadJobs)]" "searchDebounce s = Some k"
      by blast
    have "filter (\<lambda>x. snd (snd x) = LoadJobs) (filter (\<lambda>x. fst x \<noteq> k) (timers s))
        = filter (\<lambda>x. fst x \<noteq> k) (pending_queries s)"
      unfolding pending_queries_def filter_filter by (rule filter_cong) auto
    with kd show ?thesis by simp
  qed
  have fresh: "timer_ids_fresh (type_search v t s)"
    using dist below by (auto simp: ts timer_ids_fresh_def list_all_iff)
  have pend: "pending_queries (type_search v t s) = [(next_timer s, t + 350, LoadJobs)]"
    using none by (simp add: ts pending_queries_def)
  show ?thesis
    using fresh pend by (simp add: armed_def) (simp add: ts)
qed

lemma typing_burst:
  assumes "armed t v s" and "burst ((t, v) # rest)"
  shows "armed (fst (last ((t, v) # rest))) (snd (last ((t, v) # rest))) (typing rest s) \<and>
         requests (typing rest s) = requests s \<and>
         sortSelect (typing rest s) = sortSelect s"
  using assms
proof (induction rest arbitrary: t v s)
  case Nil
  then show ?case by simp
next
  case (Cons tv rest)
  from Cons.prems(2) have gap: "t \<le> fst tv" "fst tv < t + 350" and rest: "burst (tv # rest)"
    by simp_all
  from Cons.prems(1) obtain k where
    a: "timer_ids_fresh s" "pending_queries s = [(k, t + 350, LoadJobs)]" "searchDebounce s = Some k"
    by (auto simp: armed_def split: option.splits)
  let ?s1 = "advance (fst tv) s"
  have q: "requests ?s1 = requests s \<and> pending_queries ?s1 = pending_queries s \<and>
         searchInput ?s1 = searchInput s \<and> sortSelect ?s1 = sortSelect s \<and>
         searchDebounce ?s1 = searchDebounce s \<and> next_timer ?s1 = next_timer s \<and>
         distinct (map fst (timers ?s1)) \<and> set (timers ?s1) \<subseteq> set (timers s)"
    using a gap by (intro advance_quiet) (auto simp: timer_ids_fresh_def)
  have fresh1: "timer_ids_fresh ?s1"
    using a(1) q by (auto simp: timer_ids_fresh_def list_all_iff)
  let ?s2 = "type_search (snd tv) (fst tv) ?s1"
  have arm: "armed (fst tv) (snd tv) ?s2 \<and> requests ?s2 = requests ?s1 \<and>
      sortSelect ?s2 = sortSelect ?s1"
    using fresh1 a(2,3) q by (intro type_search_arms) auto
  from arm rest have "armed (fst (last ((fst tv, snd tv) # rest)))
        (snd (last ((fst tv, snd tv) # rest))) (typing rest ?s2) \<and>
      requests (typing rest ?s2) = requests ?s2 \<and> sortSelect (typing rest ?s2) = sortSelect ?s2"
    by (intro Cons.IH) auto
  with arm q show ?case by simp
qed

lemma typing_from_idle:
  assumes "timer_ids_fresh s" and "pending_queries s = []" and "tvs \<noteq> []" and "burst tvs"
  shows "armed (fst (last tvs)) (snd (last tvs)) (typing tvs s) \<and>
         requests (typing tvs s) = requests s \<and> sortSelect (typing tvs s) = sortSelect s"
proof -
  from assms(3) obtain tv rest where tvs: "tvs = tv # rest"
    by (cases tvs) auto
  let ?s1 = "advance (fst tv) s"
  have q: "requests ?s1 = requests s \<and> pending_queries ?s1 = pending_queries s \<and>
         searchInput ?s1 = searchInput s \<and> sortSelect ?s1 = sortSelect s \<and>
         searchDebounce ?s1 = searchDebounce s \<and> next_timer ?s1 = next_timer s \<and>
         distinct (map fst (timers ?s1)) \<and> set (timers ?s1) \<subseteq> set (timers s)"
    using assms(1,2) by (intro advance_quiet) (auto simp: timer_ids_fresh_def)
  have fresh1: "timer_ids_fresh ?s1"
    using assms(1) q by (auto simp: timer_ids_fresh_def list_all_iff)
  let ?s2 = "type_search (snd tv) (fst tv) ?s1"
  have arm: "armed (fst tv) (snd tv) ?s2 \<and> requests ?s2 = requests ?s1 \<and>
      sortSelect ?s2 = sortSelect ?s1"
    using fresh1 assms(2) q by (intro type_search_arms) auto
  from arm assms(4) have "armed (fst (last ((fst tv, snd tv) # rest)))
        (snd (last ((fst tv, snd tv) # rest))) (typing rest ?s2) \<and>
      requests (typing rest ?s2) = requests ?s2 \<and> sortSelect (typing rest ?s2) = sortSelect ?s2"
    unfolding tvs by (intro typing_burst) auto
  with arm q show ?thesis by (simp add: tvs)
qed

text \<open>
  Fresh timer ids are an invariant: the initial state has them and the operations that
  touch the timers keep them.
\<close>

lemma timer_ids_fresh_init: "timer_ids_fresh init_state"
  by (simp add: timer_ids_fresh_def init_state_def)

lemma timer_ids_fresh_setTimeout:
  "timer_ids_fresh s \<Longrightarrow> timer_ids_fresh (snd (setTimeout cb d now s))"
  by (auto simp: timer_ids_fresh_def setTimeout_def list_all_iff)

lemma timer_ids_fresh_clearTimeout:
  "timer_ids_fresh s \<Longrightarrow> timer_ids_fresh (clearTimeout k s)"
  by (auto simp: timer_ids_fresh_def clearTimeout_def list_all_iff distinct_map_filter
      split: option.splits)

lemma timer_ids_fresh_cong:
  "timers s' = timers s \<Longrightarrow> next_timer s' = next_timer s \<Longrightarrow>
   timer_ids_fresh s' = timer_ids_fresh s"
  by (simp add: timer_ids_fresh_def)

lemma timer_ids_fresh_steps:
  assumes "timer_ids_fresh s"
  shows "timer_ids_fresh (ws_onclose now s)"
    "timer_ids_fresh (type_search v now s)"
    "timer_ids_fresh (fire k s)"
    "timer_ids_fresh (snd (handleEvent ev s))"
    "timer_ids_fresh (ws_onmessage parse p s)"
proof -
  show "timer_ids_fresh (ws_onclose now s)"
    using assms by (auto simp: ws_onclose_def timer_ids_fresh_def setTimeout_def list_all_iff)
  show "timer_ids_fresh (type_search v now s)"
    using assms
    by (auto simp: type_search_def on_search_input_def Let_def timer_ids_fresh_def
        setTimeout_def clearTimeout_def list_all_iff distinct_map_filter split: option.splits)
  show "timer_ids_fresh (fire k s)"
  proof (cases "find (\<lambda>x. fst x = k) (timers s)")
    case None
    with assms show ?thesis by (simp add: fire_def)
  next
    case (Some x)
    have "timers (fire k s) = filter (\<lambda>x. fst x \<noteq> k) (timers s)"
      by (simp add: fire_def Some timers_run_callback)
    moreover have "next_timer (fire k s) = next_timer s"
      by (cases "snd (snd x)")
         (simp_all add: fire_def Some run_callback_def loadJobs_def issue_def connect_def Let_def)
    ultimately show ?thesis
      using assms by (auto simp: timer_ids_fresh_def list_all_iff distinct_map_filter)
  qed
  show "timer_ids_fresh (snd (handleEvent ev s))"
    using assms by (simp add: timer_ids_fresh_def)
  show "timer_ids_fresh (ws_onmessage parse p s)"
    using assms
    by (auto simp: timer_ids_fresh_def ws_onmessage_def handleEvent_conn
        split: option.splits prod.splits)
qed

text \<open>
  The bound is sharp: when a change comes exactly 350 ms after the one before, the timer
  of the first is due and fires before the second is handled, and two queries go out.
\<close>

lemma advance_idle: "next_due t (timers s) = None \<Longrightarrow> advance t s = s"
  by (simp add: advance.simps [of t s])

lemma advance_step:
  "next_due t (timers s) = Some x \<Longrightarrow> advance t s = advance t (fire (fst x) s)"
  by (simp add: advance.simps [of t s])

lemma type_search_fields:
  "timers (type_search v t s) =
     (case searchDebounce s of None \<Rightarrow> timers s
      | Some k \<Rightarrow> filter (\<lambda>x. fst x \<noteq> k) (timers s)) @ [(next_timer s, t + 350, LoadJobs)]"
  "requests (type_search v t s) = requests s"
  "searchInput (type_search v t s) = v"
  "sortSelect (type_search v t s) = sortSelect s"
  "searchDebounce (type_search v t s) = Some (next_timer s)"
  "next_timer (type_search v t s) = Suc (next_timer s)"
  by (simp_all add: type_search_def on_search_input_def clearTimeout_def setTimeout_def Let_def
      split: option.splits)

lemma typed_once:
  "timers (type_search ''a'' 0 init_state) = [(Suc 0, 350, LoadJobs)]"
  "searchDebounce (type_search ''a'' 0 init_state) = Some (Suc 0)"
  "next_timer (type_search ''a'' 0 init_state) = 2"
  "requests (type_search ''a'' 0 init_state) = []"
  "searchInput (type_search ''a'' 0 init_state) = ''a''"
  "sortSelect (type_search ''a'' 0 init_state) = []"
  by (simp_all add: type_search_fields init_state_def)

lemma gap_of_350_sends_two_queries:
  "requests (advance 700 (typing [(0, ''a''), (350, ''ab'')] init_state))
     = [GetJobs (Some ''a'') None, GetJobs (Some ''ab'') None]"
proof -
  have "next_due 0 (timers init_state) = None"
    by (simp add: next_due_def init_state_def)
  then have i: "advance 0 init_state = init_state"
    by (rule advance_idle)
  let ?s1 = "type_search ''a'' 0 init_state"
  have d1: "distinct (map fst (timers ?s1))" "pending_queries ?s1 = [(Suc 0, 350, LoadJobs)]"
    by (simp_all add: typed_once pending_queries_def)
  let ?s2 = "advance 350 ?s1"
  have nd: "next_due 350 (timers ?s1) = Some (Suc 0, 350, LoadJobs)"
    by (simp add: typed_once next_due_def)
  let ?f = "fire (Suc 0) ?s1"
  have f: "timers ?f = []" "requests ?f = [GetJobs (Some ''a'') None]"
    "searchDebounce ?f = Some (Suc 0)" "next_timer ?f = 2" "sortSelect ?f = []"
    by (simp_all add: fire_def typed_once run_callback_def loadJobs_query issue_def query_a)
  have "next_due 350 (timers ?f) = None"
    by (simp add: f next_due_def)
  then have a2: "?s2 = ?f"
    using advance_step [OF nd] advance_idle [of 350 ?f] by simp
  let ?s3 = "type_search ''ab'' 350 ?s2"
  have t3: "timers ?s3 = [(2, 700, LoadJobs)]" "requests ?s3 = [GetJobs (Some ''a'') None]"
    "searchInput ?s3 = ''ab''" "sortSelect ?s3 = []"
    by (simp_all add: a2 type_search_fields f)
  have d3: "distinct (map fst (timers ?s3))" "pending_queries ?s3 = [(2, 700, LoadJobs)]"
    by (simp_all add: t3 pending_queries_def)
  have "requests (advance 700 ?s3) = requests ?s3 @ [query (searchInput ?s3) (sortSelect ?s3)]"
    using d3 by (intro advance_fires_query) auto
  then show ?thesis
    by (simp add: i t3 query_ab)
qed

text \<open>
  Claim C8. Start with no query timer pending. Let the search text change any number of
  times, each change less than 350 ms after the one before. Then no catalog query goes
  out while the user types, none goes out before 350 ms have passed since the last
  change, and by any time from then on exactly one has gone out; it carries the last
  text (trimmed) and the sort key. A change of the sort key sends its query at once.
  Time is counted in ms; a timer fires when its due time is reached, before an input
  event of the same instant.
\<close>

theorem debounced_search_one_query:
  assumes "timer_ids_fresh s" and "pending_queries s = []" and "tvs \<noteq> []" and "burst tvs"
    and "T' < fst (last tvs) + 350" and "fst (last tvs) + 350 \<le> T"
  shows "requests (typing tvs s) = requests s \<and>
         requests (advance T' (typing tvs s)) = requests s \<and>
         requests (advance T (typing tvs s))
           = requests s @ [query (snd (last tvs)) (sortSelect s)] \<and>
         requests (change_sort k s) = requests s @ [query (searchInput s) k]"
proof -
  let ?s = "typing tvs s"
  from typing_from_idle [OF assms(1-4)] obtain i where
    a: "timer_ids_fresh ?s" "searchInput ?s = snd (last tvs)"
       "pending_queries ?s = [(i, fst (last tvs) + 350, LoadJobs)]"
       "requests ?s = requests s" "sortSelect ?s = sortSelect s"
    by (auto simp: armed_def split: option.splits)
  have d: "distinct (map fst (timers ?s))"
    using a(1) by (simp add: timer_ids_fresh_def)
  have early: "requests (advance T' ?s) = requests ?s"
    using advance_quiet [OF d, of T'] a(3) assms(5) by simp
  have late: "requests (advance T ?s) = requests ?s @ [query (searchInput ?s) (sortSelect ?s)]"
    using d a(3) assms(6) by (rule advance_fires_query)
  have sort: "requests (change_sort k s) = requests s @ [query (searchInput s) k]"
    by (simp add: change_sort_def loadJobs_query issue_def)
  from a early late sort show ?thesis by simp
qed

theorem debounced_search_one_query_witness:
  "requests (advance 650 (typing [(0, ''c''), (120, ''ca''), (300, ''cat '')] init_state))
     = [GetJobs (Some ''cat'') None] \<and>
   requests (advance 649 (typing [(0, ''c''), (120, ''ca''), (300, ''cat '')] init_state)) = [] \<and>
   requests (change_sort ''newest'' init_state) = [GetJobs None (Some ''newest'')]"
proof -
  have h: "timer_ids_fresh init_state" "pending_queries init_state = []"
    "[(0, ''c''), (120, ''ca''), (300, ''cat '')] \<noteq> ([] :: (nat \<times> string) list)"
    "burst [(0, ''c''), (120, ''ca''), (300, ''cat '')]"
    "649 < fst (last [(0::nat, ''c''), (120, ''ca''), (300, ''cat '')]) + 350"
    "fst (last [(0::nat, ''c''), (120, ''ca''), (300, ''cat '')]) + 350 \<le> 650"
    by (simp_all add: timer_ids_fresh_def pending_queries_def init_state_def)
  have v: "requests init_state = []" "sortSelect init_state = []" "searchInput init_state = []"
    "query ''cat '' [] = GetJobs (Some ''cat'') None"
    "query [] ''newest'' = GetJobs None (Some ''newest'')"
    by (simp_all add: init_state_def query_cat query_sort)
  from debounced_search_one_query [OF h, of "''newest''"] v show ?thesis by simp
qed

section \<open>Catalog reload\<close>

text \<open>
  The other two outcomes of a catalog reply: a rejected query leaves the catalog and is
  logged; a body that is no list leaves no catalog at all.
\<close>

lemma rejected_reload_keeps_catalog:
  "jobs_response i Rejected s = Inr (jobs_rejected i s) \<and> jobList (jobs_rejected i s) = jobList s"
  by (simp add: jobs_response_def jobs_rejected_def split: request.splits)

lemma error_body_is_no_catalog:
  assumes "i \<in> set (inflight s)" and "i < length (requests s)"
    and "requests s ! i = GetJobs q k"
  shows "jobs_response i ErrorBody s = Inl NotAList"
  using assms by (simp add: jobs_response_def)

















section \<open>Payloads that are not the expected envelope\<close>

text \<open>
  What the message handler of the gallery dashboard leaves behind for a payload that
  parses: the state the event handler reached, and a log entry when it threw.
\<close>

lemma ws_onmessage_parsed:
  assumes "parse p = Some ev"
  shows "jobList (ws_onmessage parse p s) = jobList (snd (handleEvent ev s))"
    "currentJobId (ws_onmessage parse p s) = currentJobId (snd (handleEvent ev s))"
    "jobDetailCache (ws_onmessage parse p s) = jobDetailCache (snd (handleEvent ev s))"
    "stages_html (ws_onmessage parse p s) = stages_html (snd (handleEvent ev s))"
    "agentLog (ws_onmessage parse p s) = agentLog (snd (handleEvent ev s))"
    "console (ws_onmessage parse p s) =
       console s @ (if fst (handleEvent ev s) = None then [] else [''WS parse error:''])"
proof -
  obtain e s' where h: "handleEvent ev s = (e, s')"
    by (cases "handleEvent ev s")
  have c: "console s' = console s"
    using handleEvent_frame(12) [of ev s] h by simp
  show "jobList (ws_onmessage parse p s) = jobList (snd (handleEvent ev s))"
    "currentJobId (ws_onmessage parse p s) = currentJobId (snd (handleEvent ev s))"
    "jobDetailCache (ws_onmessage parse p s) = jobDetailCache (snd (handleEvent ev s))"
    "stages_html (ws_onmessage parse p s) = stages_html (snd (handleEvent ev s))"
    "agentLog (ws_onmessage parse p s) = agentLog (snd (handleEvent ev s))"
    "console (ws_onmessage parse p s) =
       console s @ (if fst (handleEvent ev s) = None then [] else [''WS parse error:''])"
    using assms h c by (cases e; simp add: ws_onmessage_def)+
qed

lemma handleEvent_without_data:
  assumes "ev_data ev = None"
  shows "fst (handleEvent ev s) =
       (if ev_type ev \<in> {''stage_changed'', ''agent_message'', ''progress'', ''image_refined'',
                          ''job_failed''}
           \<or> ev_type ev = ''job_started'' \<and> find (\<lambda>j. job_id j = ev_job_id ev) (jobList s) = None
        then Some TypeError else None)"
    "currentJobId (snd (handleEvent ev s)) =
       (if ev_type ev = ''job_started'' then Some (ev_job_id ev) else currentJobId s)"
    "agentLog (snd (handleEvent ev s)) =
       (if ev_type ev = ''job_started'' then [] else agentLog s)"
  by (simp_all add: handleEvent_def Let_def simple_defs assms)

lemma handleEvent_unknown_type:
  "ev_type ev \<notin> set event_types \<Longrightarrow> handleEvent ev s = (None, s)"
  by (simp add: handleEvent_def event_types_def Let_def)

lemma handleEvent1_without_data:
  assumes "ev_data ev = None"
  shows "jobs s1 (ev_job_id ev) = None \<Longrightarrow> handleEvent1 ev s1 = (Some TypeError, s1)"
    "jobs s1 (ev_job_id ev) = Some job \<Longrightarrow> ev_type ev = ''job_failed'' \<Longrightarrow>
       handleEvent1 ev s1 =
         (Some TypeError,
          renderPipeline1 (job\<lparr>j_stage := Some ''failed''\<rparr>)
            (put_job (ev_job_id ev) (job\<lparr>j_stage := Some ''failed''\<rparr>) s1))"
  using assms by (simp_all add: handleEvent1_def track_job_def dispatch1_def Let_def)

lemma handleEvent1_unknown_type:
  assumes "ev_type ev \<notin> set event_types"
  shows "handleEvent1 ev s1 = track_job ev s1"
proof -
  have d: "dispatch1 ev job s' = (None, s')" for job s'
    using assms by (simp add: dispatch1_def event_types_def Let_def)
  show ?thesis
    by (cases "track_job ev s1")
       (auto simp: handleEvent1_def d track_job_def put_job_def split: option.splits if_splits)
qed

lemma online_fields:
  "jobList online =
     [\<lparr>job_id = ''abc123'', prompt = [], stage = Some ''research'',
       created_at = ''2026-01-01T10:00:00Z'', completed_at = None, image_count = 0,
       winner = None, winner_path = None\<rparr>]"
  "ws online = Some 0" "console online = []" "close_calls online = []" "timers online = []"
  "statusDot online = ''status-dot connected''" "next_timer online = 1"
  by (simp_all add: online_def handleEvent_jobList connect_def ws_onopen_def init_state_def
      envelope_def empty_data_def)

lemma online1_fields:
  "jobs online1 ''abc123'' =
     Some \<lparr>j_id = ''abc123'', j_stage = Some ''research'', j_prompt = [], j_images = [],
           j_scores = [], j_agentLog = []\<rparr>"
  "console1 online1 = []"
  by (simp_all add: online1_def handleEvent1_def track_job_def dispatch1_def Let_def put_job_def
      renderPipeline1_def clearImages_def init_state1_def envelope_def empty_data_def)

lemma sample_parse_values:
  "sample_parse broken_payload = None"
  "sample_parse no_data_payload =
     Some \<lparr>ev_type = ''job_failed'', ev_job_id = ''abc123'', ev_data = None,
           ev_timestamp = ''2026-01-01T10:05:00Z''\<rparr>"
  "sample_parse unknown_type_payload =
     Some \<lparr>ev_type = ''ping'', ev_job_id = ''abc123'', ev_data = None,
           ev_timestamp = ''2026-01-01T10:05:00Z''\<rparr>"
  by (simp_all add: sample_parse_def broken_payload_def no_data_payload_def
      unknown_type_payload_def)

text \<open>
  Claim C9, as stated: a payload that fails to parse as the expected envelope is logged
  and dropped without the event being applied. It fails for a payload that is JSON but
  lacks \<^verbatim>\<open>data\<close>: with the socket open and the job at \<^verbatim>\<open>research\<close>, the
  \<^verbatim>\<open>job_failed\<close> envelope without \<^verbatim>\<open>data\<close> moves the job to \<^verbatim>\<open>failed\<close> before the
  handler throws and the payload is logged; the envelope of an unknown type is dropped
  and not logged.
\<close>

theorem envelope_without_data_applied_in_part:
  "sample_parse no_data_payload =
     Some \<lparr>ev_type = ''job_failed'', ev_job_id = ''abc123'', ev_data = None,
           ev_timestamp = ''2026-01-01T10:05:00Z''\<rparr> \<and>
   ws online = Some 0 \<and> console online = [] \<and>
   stage_of ''abc123'' (jobList online) = Some (Some ''research'') \<and>
   stage_of ''abc123'' (jobList (ws_onmessage sample_parse no_data_payload online))
     = Some (Some ''failed'') \<and>
   console (ws_onmessage sample_parse no_data_payload online) = [''WS parse error:''] \<and>
   sample_parse unknown_type_payload =
     Some \<lparr>ev_type = ''ping'', ev_job_id = ''abc123'', ev_data = None,
           ev_timestamp = ''2026-01-01T10:05:00Z''\<rparr> \<and>
   ws_onmessage sample_parse unknown_type_payload online = online"
proof -
  have a: "jobList (ws_onmessage sample_parse no_data_payload online)
             = set_stage ''abc123'' (Some ''failed'') (jobList online)"
    by (simp add: ws_onmessage_parsed(1) [where parse = sample_parse and p = no_data_payload, OF sample_parse_values(2)] handleEvent_jobList)
  have b: "console (ws_onmessage sample_parse no_data_payload online) = [''WS parse error:'']"
    by (simp add: ws_onmessage_parsed(6) [where parse = sample_parse and p = no_data_payload, OF sample_parse_values(2)] handleEvent_without_data(1)
        online_fields)
  have c: "ws_onmessage sample_parse unknown_type_payload online = online"
    by (simp add: ws_onmessage_def sample_parse_values(3) handleEvent_unknown_type event_types_def)
  show ?thesis
    by (simp add: a b c sample_parse_values online_fields stage_of_def)
qed

text \<open>
  Claim C9, amended. A payload that is not JSON is logged and changes nothing else, in
  both dashboards. A payload that parses to an envelope without \<^verbatim>\<open>data\<close> is logged
  exactly when the handler throws, and what the handler did before stays: in the gallery
  dashboard \<^verbatim>\<open>job_failed\<close> and \<^verbatim>\<open>job_completed\<close> set the stage, \<^verbatim>\<open>job_started\<close>
  switches the tracked job and clears the log, and the events that invalidate the detail
  cache do so; in the earlier dashboard an unknown job id is only logged, and
  \<^verbatim>\<open>job_failed\<close> for a known job sets its stage and is logged. An envelope of a type
  without a case is dropped and not logged by the gallery dashboard; the earlier
  dashboard tracks its job first. No payload closes the socket, schedules a reconnect or
  changes the status indicator, and neither does the open handler: \<^verbatim>\<open>close()\<close> is
  called only by the error handler, and only the close handler shows the status
  \<^verbatim>\<open>disconnected\<close> and schedules the reconnect, three seconds ahead.
\<close>

theorem malformed_payload_effects:
  "(parse p = None \<longrightarrow>
      ws_onmessage parse p s = s\<lparr>console := console s @ [''WS parse error:'']\<rparr> \<and>
      ws_onmessage1 parse p s1 = s1\<lparr>console1 := console1 s1 @ [''WS parse error:'']\<rparr>) \<and>
   (parse p = Some ev \<and> ev_data ev = None \<longrightarrow>
      console (ws_onmessage parse p s) =
        console s @
        (if ev_type ev \<in> {''stage_changed'', ''agent_message'', ''progress'', ''image_refined'',
                           ''job_failed''}
            \<or> ev_type ev = ''job_started'' \<and>
              find (\<lambda>j. job_id j = ev_job_id ev) (jobList s) = None
         then [''WS parse error:''] else []) \<and>
      jobList (ws_onmessage parse p s) =
        (if ev_type ev = ''job_failed'' then set_stage (ev_job_id ev) (Some ''failed'') (jobList s)
         else if ev_type ev = ''job_completed''
           then set_stage (ev_job_id ev) (Some ''complete'') (jobList s)
         else jobList s) \<and>
      stages_html (ws_onmessage parse p s) =
        (if ev_type ev = ''job_started'' then pipeline_view (Some ''research'')
         else if ev_type ev = ''job_completed'' then pipeline_view (Some ''complete'')
         else if ev_type ev = ''job_failed'' then pipeline_view (Some ''failed'')
         else stages_html s) \<and>
      currentJobId (ws_onmessage parse p s) =
        (if ev_type ev = ''job_started'' then Some (ev_job_id ev) else currentJobId s) \<and>
      agentLog (ws_onmessage parse p s) =
        (if ev_type ev = ''job_started'' then [] else agentLog s) \<and>
      jobDetailCache (ws_onmessage parse p s) =
        (if ev_type ev \<in> {''image_generated'', ''variant_scored'', ''image_refined'',
                           ''job_completed''}
            \<or> ev_type ev = ''job_started'' \<and>
              find (\<lambda>j. job_id j = ev_job_id ev) (jobList s) \<noteq> None
         then (jobDetailCache s)(ev_job_id ev := None) else jobDetailCache s) \<and>
      (jobs s1 (ev_job_id ev) = None \<longrightarrow>
         ws_onmessage1 parse p s1 = s1\<lparr>console1 := console1 s1 @ [''WS parse error:'']\<rparr>) \<and>
      (jobs s1 (ev_job_id ev) = Some job \<and> ev_type ev = ''job_failed'' \<longrightarrow>
         ws_onmessage1 parse p s1 =
           (renderPipeline1 (job\<lparr>j_stage := Some ''failed''\<rparr>)
              (put_job (ev_job_id ev) (job\<lparr>j_stage := Some ''failed''\<rparr>) s1))
           \<lparr>console1 := console1 s1 @ [''WS parse error:'']\<rparr>)) \<and>
   (parse p = Some ev \<and> ev_type ev \<notin> set event_types \<longrightarrow>
      ws_onmessage parse p s = s \<and>
      ws_onmessage1 parse p s1 =
        (if jobs s1 (ev_job_id ev) \<noteq> None then s1
         else case ev_data ev of
                None \<Rightarrow> s1\<lparr>console1 := console1 s1 @ [''WS parse error:'']\<rparr>
              | Some d \<Rightarrow>
                  put_job (ev_job_id ev)
                    \<lparr>j_id = ev_job_id ev, j_stage = Some ''queued'',
                     j_prompt = or_else (d_prompt d) [],
                     j_images = [], j_scores = [], j_agentLog = []\<rparr> s1)) \<and>
   ws (ws_onmessage parse p s) = ws s \<and>
   close_calls (ws_onmessage parse p s) = close_calls s \<and>
   timers (ws_onmessage parse p s) = timers s \<and>
   statusDot (ws_onmessage parse p s) = statusDot s \<and>
   close_calls (ws_onopen s) = close_calls s \<and> timers (ws_onopen s) = timers s \<and>
   close_calls (ws_onerror s) = close_calls s @ (case ws s of None \<Rightarrow> [] | Some k \<Rightarrow> [k]) \<and>
   timers (ws_onerror s) = timers s \<and>
   close_calls (ws_onclose now s) = close_calls s \<and>
   timers (ws_onclose now s) = timers s @ [(next_timer s, now + 3000, Connect)] \<and>
   statusDot (ws_onclose now s) = ''status-dot disconnected''"
proof -
  have A: "parse p = None \<longrightarrow>
      ws_onmessage parse p s = s\<lparr>console := console s @ [''WS parse error:'']\<rparr> \<and>
      ws_onmessage1 parse p s1 = s1\<lparr>console1 := console1 s1 @ [''WS parse error:'']\<rparr>"
    by (simp add: ws_onmessage_def ws_onmessage1_def)
  have B1: "console (ws_onmessage parse p s) =
        console s @
        (if ev_type ev \<in> {''stage_changed'', ''agent_message'', ''progress'', ''image_refined'',
                           ''job_failed''}
            \<or> ev_type ev = ''job_started'' \<and>
              find (\<lambda>j. job_id j = ev_job_id ev) (jobList s) = None
         then [''WS parse error:''] else [])"
    if "parse p = Some ev" "ev_data ev = None"
    by (simp add: ws_onmessage_parsed(6) [where parse = parse and p = p, OF that(1)] handleEvent_without_data(1) [OF that(2)])
  have B2: "jobList (ws_onmessage parse p s) =
        (if ev_type ev = ''job_failed'' then set_stage (ev_job_id ev) (Some ''failed'') (jobList s)
         else if ev_type ev = ''job_completed''
           then set_stage (ev_job_id ev) (Some ''complete'') (jobList s)
         else jobList s)"
    if "parse p = Some ev" "ev_data ev = None"
    by (simp add: ws_onmessage_parsed(1) [where parse = parse and p = p, OF that(1)] handleEvent_jobList that(2)
        split: option.splits)
  have B3: "stages_html (ws_onmessage parse p s) =
        (if ev_type ev = ''job_started'' then pipeline_view (Some ''research'')
         else if ev_type ev = ''job_completed'' then pipeline_view (Some ''complete'')
         else if ev_type ev = ''job_failed'' then pipeline_view (Some ''failed'')
         else stages_html s)"
    if "parse p = Some ev" "ev_data ev = None"
    by (simp add: ws_onmessage_parsed(4) [where parse = parse and p = p, OF that(1)] handleEvent_stages_html that(2))
  have B4: "currentJobId (ws_onmessage parse p s) =
        (if ev_type ev = ''job_started'' then Some (ev_job_id ev) else currentJobId s)"
      "agentLog (ws_onmessage parse p s) =
        (if ev_type ev = ''job_started'' then [] else agentLog s)"
    if "parse p = Some ev" "ev_data ev = None"
    by (simp_all add: ws_onmessage_parsed [where parse = parse and p = p, OF that(1)] handleEvent_without_data [OF that(2)])
  have B5: "jobDetailCache (ws_onmessage parse p s) =
        (if ev_type ev \<in> {''image_generated'', ''variant_scored'', ''image_refined'',
                           ''job_completed''}
            \<or> ev_type ev = ''job_started'' \<and>
              find (\<lambda>j. job_id j = ev_job_id ev) (jobList s) \<noteq> None
         then (jobDetailCache s)(ev_job_id ev := None) else jobDetailCache s)"
    if "parse p = Some ev" "ev_data ev = None"
    by (simp add: ws_onmessage_parsed(3) [where parse = parse and p = p, OF that(1)] handleEvent_jobDetailCache that(2))
  have B6: "ws_onmessage1 parse p s1 = s1\<lparr>console1 := console1 s1 @ [''WS parse error:'']\<rparr>"
    if "parse p = Some ev" "ev_data ev = None" "jobs s1 (ev_job_id ev) = None"
    by (simp add: ws_onmessage1_def that(1) handleEvent1_without_data(1) [OF that(2,3)])
  have B7: "ws_onmessage1 parse p s1 =
           (renderPipeline1 (job\<lparr>j_stage := Some ''failed''\<rparr>)
              (put_job (ev_job_id ev) (job\<lparr>j_stage := Some ''failed''\<rparr>) s1))
           \<lparr>console1 := console1 s1 @ [''WS parse error:'']\<rparr>"
    if "parse p = Some ev" "ev_data ev = None" "jobs s1 (ev_job_id ev) = Some job"
      "ev_type ev = ''job_failed''"
    by (simp add: ws_onmessage1_def that(1) handleEvent1_without_data(2) [OF that(2,3,4)]
        renderPipeline1_def put_job_def)
  have C1: "ws_onmessage parse p s = s"
    if "parse p = Some ev" "ev_type ev \<notin> set event_types"
    by (simp add: ws_onmessage_def that(1) handleEvent_unknown_type [OF that(2)])
  have C2: "ws_onmessage1 parse p s1 =
        (if jobs s1 (ev_job_id ev) \<noteq> None then s1
         else case ev_data ev of
                None \<Rightarrow> s1\<lparr>console1 := console1 s1 @ [''WS parse error:'']\<rparr>
              | Some d \<Rightarrow>
                  put_job (ev_job_id ev)
                    \<lparr>j_id = ev_job_id ev, j_stage = Some ''queued'',
                     j_prompt = or_else (d_prompt d) [],
                     j_images = [], j_scores = [], j_agentLog = []\<rparr> s1)"
    if "parse p = Some ev" "ev_type ev \<notin> set event_types"
    by (simp add: ws_onmessage1_def that(1) handleEvent1_unknown_type [OF that(2)] track_job_def
        split: option.splits)
  have D: "close_calls (ws_onopen s) = close_calls s \<and> timers (ws_onopen s) = timers s \<and>
   close_calls (ws_onerror s) = close_calls s @ (case ws s of None \<Rightarrow> [] | Some k \<Rightarrow> [k]) \<and>
   timers (ws_onerror s) = timers s \<and>
   close_calls (ws_onclose now s) = close_calls s \<and>
   timers (ws_onclose now s) = timers s @ [(next_timer s, now + 3000, Connect)] \<and>
   statusDot (ws_onclose now s) = ''status-dot disconnected''"
    by (simp add: ws_onopen_def ws_onerror_def ws_onclose_def setTimeout_def split: option.splits)
  from A B1 B2 B3 B4 B5 B6 B7 C1 C2 D ws_onmessage_conn [of parse p s]
  show ?thesis by blast
qed

theorem malformed_payload_effects_witness:
  "sample_parse broken_payload = None \<and>
   ws_onmessage sample_parse broken_payload online = online\<lparr>console := [''WS parse error:'']\<rparr> \<and>
   ws_onmessage1 sample_parse broken_payload online1
     = online1\<lparr>console1 := [''WS parse error:'']\<rparr> \<and>
   map_option ev_data (sample_parse no_data_payload) = Some None \<and>
   jobList (ws_onmessage sample_parse no_data_payload online)
     = set_stage ''abc123'' (Some ''failed'') (jobList online) \<and>
   console (ws_onmessage sample_parse no_data_payload online) = [''WS parse error:''] \<and>
   map_option j_stage (jobs online1 ''abc123'') = Some (Some ''research'') \<and>
   map_option j_stage (jobs (ws_onmessage1 sample_parse no_data_payload online1) ''abc123'')
     = Some (Some ''failed'') \<and>
   console1 (ws_onmessage1 sample_parse no_data_payload online1) = [''WS parse error:''] \<and>
   map_option ev_type (sample_parse unknown_type_payload) = Some ''ping'' \<and>
   ws_onmessage sample_parse unknown_type_payload online = online \<and>
   ws (ws_onmessage sample_parse no_data_payload online) = Some 0 \<and>
   close_calls (ws_onmessage sample_parse no_data_payload online) = [] \<and>
   timers (ws_onmessage sample_parse no_data_payload online) = [] \<and>
   statusDot (ws_onmessage sample_parse no_data_payload online) = ''status-dot connected'' \<and>
   close_calls (ws_onerror online) = [0] \<and>
   timers (ws_onclose 5 online) = [(1, 3005, Connect)] \<and>
   statusDot (ws_onclose 5 online) = ''status-dot disconnected''"
proof -
  let ?nd = "\<lparr>ev_type = ''job_failed'', ev_job_id = ''abc123'', ev_data = None,
              ev_timestamp = ''2026-01-01T10:05:00Z''\<rparr>"
  let ?job = "\<lparr>j_id = ''abc123'', j_stage = Some ''research'', j_prompt = [], j_images = [],
               j_scores = [], j_agentLog = []\<rparr>"
  let ?un = "\<lparr>ev_type = ''ping'', ev_job_id = ''abc123'', ev_data = None,
              ev_timestamp = ''2026-01-01T10:05:00Z''\<rparr>"
  note v = sample_parse_values
  have nd: "ev_data ?nd = None" "ev_type ?nd = ''job_failed''"
    "jobs online1 (ev_job_id ?nd) = Some ?job"
    by (simp_all add: online1_fields)
  have un: "ev_type ?un \<notin> set event_types"
    by (simp add: event_types_def)
  from malformed_payload_effects [where parse = sample_parse and p = broken_payload
      and s = online and ?s1.0 = online1] v(1)
  have a: "ws_onmessage sample_parse broken_payload online
             = online\<lparr>console := console online @ [''WS parse error:'']\<rparr>"
    "ws_onmessage1 sample_parse broken_payload online1
             = online1\<lparr>console1 := console1 online1 @ [''WS parse error:'']\<rparr>"
    by blast+
  from malformed_payload_effects [where parse = sample_parse and p = no_data_payload
      and ev = ?nd and s = online and now = 5 and ?s1.0 = online1 and job = ?job]
    v(2) nd
  have b: "ws_onmessage1 sample_parse no_data_payload online1 =
           (renderPipeline1 (?job\<lparr>j_stage := Some ''failed''\<rparr>)
              (put_job (ev_job_id ?nd) (?job\<lparr>j_stage := Some ''failed''\<rparr>) online1))
           \<lparr>console1 := console1 online1 @ [''WS parse error:'']\<rparr>"
    "console (ws_onmessage sample_parse no_data_payload online) =
        console online @
        (if ev_type ?nd \<in> {''stage_changed'', ''agent_message'', ''progress'', ''image_refined'',
                           ''job_failed''}
            \<or> ev_type ?nd = ''job_started'' \<and>
              find (\<lambda>j. job_id j = ev_job_id ?nd) (jobList online) = None
         then [''WS parse error:''] else [])"
    "jobList (ws_onmessage sample_parse no_data_payload online) =
        (if ev_type ?nd = ''job_failed''
           then set_stage (ev_job_id ?nd) (Some ''failed'') (jobList online)
         else if ev_type ?nd = ''job_completed''
           then set_stage (ev_job_id ?nd) (Some ''complete'') (jobList online)
         else jobList online)"
    "ws (ws_onmessage sample_parse no_data_payload online) = ws online"
    "close_calls (ws_onmessage sample_parse no_data_payload online) = close_calls online"
    "timers (ws_onmessage sample_parse no_data_payload online) = timers online"
    "statusDot (ws_onmessage sample_parse no_data_payload online) = statusDot online"
    "close_calls (ws_onerror online)
       = close_calls online @ (case ws online of None \<Rightarrow> [] | Some k \<Rightarrow> [k])"
    "timers (ws_onclose 5 online) = timers online @ [(next_timer online, 5 + 3000, Connect)]"
    "statusDot (ws_onclose 5 online) = ''status-dot disconnected''"
    by blast+
  from malformed_payload_effects [where parse = sample_parse and p = unknown_type_payload
      and ev = ?un and s = online] v(3) un
  have c: "ws_onmessage sample_parse unknown_type_payload online = online"
    by blast
  show ?thesis
    by (simp add: a b c v online_fields online1_fields renderPipeline1_def put_job_def)
qed

end
